theory Spec2Isabelle
  imports Main "HOL-Library.Sublist" "HOL-Library.Product_Lexorder"
begin

section \<open>Exceptions and timestamps\<close>

text \<open>
  The feed generator \<^verbatim>\<open>openai_eng_blog.py\<close> raises and catches Python exceptions.
  They are values here. The source distinguishes \<^verbatim>\<open>ValueError\<close> (caught around each
  \<^verbatim>\<open>strptime\<close> call) from every other \<^verbatim>\<open>Exception\<close> (caught once per card).
\<close>

datatype exn = ValueError string | OverflowError string | OtherException string

text \<open>
  A \<^verbatim>\<open>datetime\<close> object: the calendar fields and the optional time zone.
  \<^verbatim>\<open>pytz.UTC\<close> is the only zone the program uses. A naive datetime has no zone.
\<close>

datatype tz = UTC

record datetime =
  year :: nat
  month :: nat
  day :: nat
  hour :: nat
  minute :: nat
  second :: nat
  tzinfo :: "tz option"

text \<open>
  Calendar arithmetic of the standard library's \<^verbatim>\<open>datetime\<close> module, written after its
  reference implementation: proleptic Gregorian ordinals, where day 1 is 0001-01-01.
\<close>

definition is_leap :: "nat \<Rightarrow> bool" where
  "is_leap y = (y mod 4 = 0 \<and> (y mod 100 \<noteq> 0 \<or> y mod 400 = 0))"

definition days_before_year :: "nat \<Rightarrow> nat" where
  "days_before_year y = (let p = y - 1 in p * 365 + p div 4 - p div 100 + p div 400)"

fun DAYS_IN_MONTH :: "nat \<Rightarrow> nat" where
  "DAYS_IN_MONTH m =
     (if m = 2 then 28 else if m = 4 \<or> m = 6 \<or> m = 9 \<or> m = 11 then 30 else 31)"

fun DAYS_BEFORE_MONTH :: "nat \<Rightarrow> nat" where
  "DAYS_BEFORE_MONTH m =
     (if m \<le> 1 then 0 else if m = 2 then 31 else if m = 3 then 59 else if m = 4 then 90
      else if m = 5 then 120 else if m = 6 then 151 else if m = 7 then 181
      else if m = 8 then 212 else if m = 9 then 243 else if m = 10 then 273
      else if m = 11 then 304 else 334)"

definition days_in_month :: "nat \<Rightarrow> nat \<Rightarrow> nat" where
  "days_in_month y m = (if m = 2 \<and> is_leap y then 29 else DAYS_IN_MONTH m)"

definition days_before_month :: "nat \<Rightarrow> nat \<Rightarrow> nat" where
  "days_before_month y m = DAYS_BEFORE_MONTH m + (if m > 2 \<and> is_leap y then 1 else 0)"

definition ymd2ord :: "nat \<Rightarrow> nat \<Rightarrow> nat \<Rightarrow> nat" where
  "ymd2ord y m d = days_before_year y + days_before_month y m + d"

text \<open>
  The inverse, \<^verbatim>\<open>_ord2ymd\<close>: year, month and day of an ordinal \<open>n \<ge> 1\<close>. Its second
  half, which finds month and day from the 0-based day of the year, is \<open>month_day\<close>.
\<close>

definition month_day :: "bool \<Rightarrow> nat \<Rightarrow> nat \<times> nat" where
  "month_day leapyear n =
     (let m = (n + 50) div 32;
          preceding = DAYS_BEFORE_MONTH m + (if m > 2 \<and> leapyear then 1 else 0)
      in if preceding > n
         then let m' = m - 1;
                  preceding' = preceding
                               - (DAYS_IN_MONTH m' + (if m' = 2 \<and> leapyear then 1 else 0))
              in (m', n - preceding' + 1)
         else (m, n - preceding + 1))"

definition ord2ymd :: "nat \<Rightarrow> nat \<times> nat \<times> nat" where
  "ord2ymd n0 =
     (let n = n0 - 1;
          n400 = n div 146097; n = n mod 146097;
          n100 = n div 36524; n = n mod 36524;
          n4 = n div 1461; n = n mod 1461;
          n1 = n div 365; n = n mod 365;
          y = n400 * 400 + 1 + n100 * 100 + n4 * 4 + n1
      in if n1 = 4 \<or> n100 = 4 then (y - 1, 12, 31)
         else (y, month_day (n1 = 3 \<and> (n4 \<noteq> 24 \<or> n100 = 3)) n))"

definition toordinal :: "datetime \<Rightarrow> nat" where
  "toordinal d = ymd2ord (year d) (month d) (day d)"

text \<open>
  \<^verbatim>\<open>dt + timedelta(days=n)\<close>: the date moves by \<open>n\<close> days, the time of day and the zone
  stay; a result past 9999-12-31 (ordinal 3652059) raises \<^verbatim>\<open>OverflowError\<close>.
\<close>

definition MAXORDINAL :: nat where
  "MAXORDINAL = 3652059"

definition add_days :: "datetime \<Rightarrow> nat \<Rightarrow> exn + datetime" where
  "add_days d n =
     (let days = toordinal d + n
      in if 0 < days \<and> days \<le> MAXORDINAL
         then (case ord2ymd days of
                 (y, m, dd) \<Rightarrow> Inr (d\<lparr>year := y, month := m, day := dd\<rparr>))
         else Inl (OverflowError ''date value out of range''))"

text \<open>
  Two datetimes of the same zone compare field by field, most significant first.
\<close>

definition datetime_le :: "datetime \<Rightarrow> datetime \<Rightarrow> bool" where
  "datetime_le a b =
     ((year a, month a, day a, hour a, minute a, second a)
        \<le> (year b, month b, day b, hour b, minute b, second b))"

section \<open>The date resolver\<close>

text \<open>
  \<^verbatim>\<open>stable_fallback_date(identifier)\<close>. Python's built-in \<^verbatim>\<open>hash\<close> of a string is fixed
  for the lifetime of one interpreter process and differs between processes, so the hash
  of the running process is a parameter \<open>h\<close>. \<^verbatim>\<open>abs(hash(identifier)) % 730\<close> is on
  unbounded integers.
\<close>

definition epoch :: datetime where
  "epoch = \<lparr>year = 2023, month = 1, day = 1, hour = 0, minute = 0, second = 0,
            tzinfo = Some UTC\<rparr>"

definition hash_val :: "(string \<Rightarrow> int) \<Rightarrow> string \<Rightarrow> int" where
  "hash_val h identifier = \<bar>h identifier\<bar> mod 730"

definition stable_fallback_date :: "(string \<Rightarrow> int) \<Rightarrow> string \<Rightarrow> exn + datetime" where
  "stable_fallback_date h identifier = add_days epoch (nat (hash_val h identifier))"

section \<open>The article extractor\<close>

text \<open>
  \<^verbatim>\<open>parse_openai_eng_html\<close> reaches the document only through calls of the HTML library
  (BeautifulSoup) and builds dates with \<^verbatim>\<open>datetime.strptime\<close>. Those calls are the
  fields of a record, the library the function runs against; each may raise. \<open>'h\<close> is
  the type of the markup handed in, \<open>'e\<close> the type of the library's elements.
  A tag object is always true in a condition, so \<^verbatim>\<open>if not link_elem\<close> asks whether
  \<^verbatim>\<open>select_one\<close> returned \<^verbatim>\<open>None\<close>.
\<close>

record ('h, 'e) lib =
  BeautifulSoup :: "'h \<Rightarrow> exn + 'e"
  select :: "'e \<Rightarrow> string \<Rightarrow> exn + 'e list"
  select_one :: "'e \<Rightarrow> string \<Rightarrow> exn + 'e option"
  get :: "'e \<Rightarrow> string \<Rightarrow> string \<Rightarrow> exn + string"
  get_text :: "'e \<Rightarrow> exn + string"
  find_all :: "'e \<Rightarrow> string \<Rightarrow> exn + 'e list"
  strptime :: "string \<Rightarrow> string \<Rightarrow> exn + datetime"
  hash :: "string \<Rightarrow> int"

record article =
  title :: string
  link :: string
  date :: datetime
  category :: string
  description :: string

text \<open>The three messages the function logs.\<close>

datatype log_record =
  Warning_date_parsing_failed string
  | Warning_skipping_article exn
  | Info_parsed nat

record state =
  articles :: "article list"
  seen_links :: "string set"
  logged :: "log_record list"

text \<open>
  The body of the loop, in the order of the source. Each part returns \<open>Inl e\<close> where a
  library call raises \<open>e\<close>, and \<open>Inr None\<close> where the source says \<^verbatim>\<open>continue\<close>.

  Lines 79 to 94: the article link and the full URL.
\<close>

definition build_url :: "string \<Rightarrow> string option" where
  "build_url href =
     (if prefix ''/'' href then Some (''https://openai.com'' @ href)
      else if prefix ''http'' href then Some href
      else None)"

definition find_link :: "('h, 'e) lib \<Rightarrow> 'e \<Rightarrow> exn + string option" where
  "find_link L crd =
     (case select_one L crd ''a[href*='/index/']'' of
        Inl e \<Rightarrow> Inl e
      | Inr None \<Rightarrow> Inr None
      | Inr (Some link_elem) \<Rightarrow>
          (case get L link_elem ''href'' [] of
             Inl e \<Rightarrow> Inl e
           | Inr href \<Rightarrow> if href = [] then Inr None else Inr (build_url href)))"

text \<open>Lines 101 to 107: the title.\<close>

definition extract_title :: "('h, 'e) lib \<Rightarrow> 'e \<Rightarrow> exn + string option" where
  "extract_title L crd =
     (case select_one L crd ''div.text-h5'' of
        Inl e \<Rightarrow> Inl e
      | Inr None \<Rightarrow> Inr None
      | Inr (Some title_elem) \<Rightarrow>
          (case get_text L title_elem of
             Inl e \<Rightarrow> Inl e
           | Inr t \<Rightarrow> if t = [] then Inr None else Inr (Some t)))"

text \<open>
  Lines 109 to 126: the date. Only \<^verbatim>\<open>ValueError\<close> is caught around \<^verbatim>\<open>strptime\<close>. The
  warning of line 121 is logged before the fallback date is computed, so the part returns
  the warnings it logged beside its result.
\<close>

definition replace_tzinfo :: "datetime \<Rightarrow> datetime" where
  "replace_tzinfo d = d\<lparr>tzinfo := Some UTC\<rparr>"

definition parse_datetime_str ::
  "('h, 'e) lib \<Rightarrow> string \<Rightarrow> string \<Rightarrow> string \<Rightarrow> log_record list \<times> (exn + datetime)" where
  "parse_datetime_str L datetime_str ttl lnk =
     (case strptime L datetime_str ''%Y-%m-%dT%H:%M'' of
        Inr d \<Rightarrow> ([], Inr (replace_tzinfo d))
      | Inl (ValueError _) \<Rightarrow>
          (case strptime L datetime_str ''%Y-%m-%d'' of
             Inr d \<Rightarrow> ([], Inr (replace_tzinfo d))
           | Inl (ValueError _) \<Rightarrow>
               ([Warning_date_parsing_failed ttl], stable_fallback_date (hash L) lnk)
           | Inl e \<Rightarrow> ([], Inl e))
      | Inl e \<Rightarrow> ([], Inl e))"

definition extract_date ::
  "('h, 'e) lib \<Rightarrow> 'e \<Rightarrow> string \<Rightarrow> string \<Rightarrow> log_record list \<times> (exn + datetime)" where
  "extract_date L crd ttl lnk =
     (case select_one L crd ''time[datetime]'' of
        Inl e \<Rightarrow> ([], Inl e)
      | Inr (Some time_elem) \<Rightarrow>
          (case get L time_elem ''datetime'' [] of
             Inl e \<Rightarrow> ([], Inl e)
           | Inr datetime_str \<Rightarrow> parse_datetime_str L datetime_str ttl lnk)
      | Inr None \<Rightarrow> ([], stable_fallback_date (hash L) lnk))"

text \<open>Lines 128 to 139: the category.\<close>

definition extract_category :: "('h, 'e) lib \<Rightarrow> 'e \<Rightarrow> exn + string" where
  "extract_category L crd =
     (case select_one L crd ''span.text-meta span:first-child'' of
        Inl e \<Rightarrow> Inl e
      | Inr None \<Rightarrow>
          (case select_one L crd ''p.text-meta'' of
             Inl e \<Rightarrow> Inl e
           | Inr (Some meta_p) \<Rightarrow>
               (case find_all L meta_p ''span'' of
                  Inl e \<Rightarrow> Inl e
                | Inr [] \<Rightarrow> Inr ''Engineering''
                | Inr (span0 # _) \<Rightarrow> get_text L span0)
           | Inr None \<Rightarrow> Inr ''Engineering'')
      | Inr (Some category_span) \<Rightarrow> get_text L category_span)"

text \<open>
  One iteration of the loop. \<open>try_card\<close> is the body of the \<^verbatim>\<open>try\<close>: it returns
  the state in which the body was left and, if an exception left it, the exception. What
  the body had changed by then (the link in \<^verbatim>\<open>seen_links\<close>, a logged warning) stays.
\<close>

definition try_card :: "('h, 'e) lib \<Rightarrow> state \<Rightarrow> 'e \<Rightarrow> state \<times> exn option" where
  "try_card L st crd =
     (case find_link L crd of
        Inl e \<Rightarrow> (st, Some e)
      | Inr None \<Rightarrow> (st, None)
      | Inr (Some lnk) \<Rightarrow>
          if lnk \<in> seen_links st then (st, None)
          else
            let st1 = st\<lparr>seen_links := insert lnk (seen_links st)\<rparr>
            in (case extract_title L crd of
                  Inl e \<Rightarrow> (st1, Some e)
                | Inr None \<Rightarrow> (st1, None)
                | Inr (Some ttl) \<Rightarrow>
                    (case extract_date L crd ttl lnk of
                       (warnings, r) \<Rightarrow>
                         let st2 = st1\<lparr>logged := logged st1 @ warnings\<rparr>
                         in (case r of
                               Inl e \<Rightarrow> (st2, Some e)
                             | Inr d \<Rightarrow>
                                 (case extract_category L crd of
                                    Inl e \<Rightarrow> (st2, Some e)
                                  | Inr cat \<Rightarrow>
                                      (st2\<lparr>articles := articles st2 @
                                         [\<lparr>title = ttl, link = lnk, date = d, category = cat,
                                           description = ttl\<rparr>]\<rparr>, None))))))"

text \<open>
  The \<^verbatim>\<open>except Exception\<close> around it: the warning of line 151, then \<^verbatim>\<open>continue\<close>.
\<close>

definition skip_article :: "state \<Rightarrow> exn \<Rightarrow> state" where
  "skip_article st e = st\<lparr>logged := logged st @ [Warning_skipping_article e]\<rparr>"

definition process_card :: "('h, 'e) lib \<Rightarrow> state \<Rightarrow> 'e \<Rightarrow> state" where
  "process_card L st crd =
     (case try_card L st crd of
        (st', None) \<Rightarrow> st'
      | (st', Some e) \<Rightarrow> skip_article st' e)"

fun for_cards :: "('h, 'e) lib \<Rightarrow> state \<Rightarrow> 'e list \<Rightarrow> state" where
  "for_cards L st [] = st"
| "for_cards L st (crd # cards) = for_cards L (process_card L st crd) cards"

definition initial_state :: state where
  "initial_state = \<lparr>articles = [], seen_links = {}, logged = []\<rparr>"

text \<open>
  The whole function. The parser call and the selection of the cards stand outside the
  \<^verbatim>\<open>try\<close>: an exception there leaves the function. \<open>run_extraction\<close> returns the final
  state, with the log; \<open>parse_openai_eng_html\<close> returns what the source returns.
\<close>

definition run_extraction :: "('h, 'e) lib \<Rightarrow> 'h \<Rightarrow> exn + state" where
  "run_extraction L html_content =
     (case BeautifulSoup L html_content of
        Inl e \<Rightarrow> Inl e
      | Inr soup \<Rightarrow>
          (case select L soup ''div.group.relative'' of
             Inl e \<Rightarrow> Inl e
           | Inr cards \<Rightarrow>
               let st = for_cards L initial_state cards
               in Inr (st\<lparr>logged := logged st @ [Info_parsed (length (articles st))]\<rparr>)))"

definition parse_openai_eng_html :: "('h, 'e) lib \<Rightarrow> 'h \<Rightarrow> exn + article list" where
  "parse_openai_eng_html L html_content =
     (case run_extraction L html_content of
        Inl e \<Rightarrow> Inl e
      | Inr st \<Rightarrow> Inr (articles st))"

section \<open>A library instance: parse trees\<close>

text \<open>
  For concrete runs the library is instantiated with the behaviour of BeautifulSoup on
  parse trees. The parser itself is not modelled: a document is given as the tree the
  parser builds, with lower-case tag and attribute names and each attribute once.
  Strings are ASCII, so the characters \<^verbatim>\<open>str.strip()\<close> removes beyond ASCII are not
  among them. Only the selectors the program uses are understood. An element is given
  without what lies above it: for the descendant selector the ancestors above the
  element searched are not consulted, so the instance is for documents in which no card
  lies inside a \<^verbatim>\<open>span\<close> of class \<^verbatim>\<open>text-meta\<close>. The theorems about the program do
  not depend on the instance: they hold for every library.
\<close>

datatype node = Text string | Tag string "(string \<times> string) list" "node list"

fun is_tag :: "node \<Rightarrow> bool" where
  "is_tag (Tag _ _ _) = True"
| "is_tag (Text _) = False"

fun tag_named :: "string \<Rightarrow> node \<Rightarrow> bool" where
  "tag_named name (Tag t _ _) = (t = name)"
| "tag_named name (Text _) = False"

fun attrs :: "node \<Rightarrow> (string \<times> string) list" where
  "attrs (Tag _ a _) = a"
| "attrs (Text _) = []"

fun children :: "node \<Rightarrow> node list" where
  "children (Tag _ _ cs) = cs"
| "children (Text _) = []"

text \<open>The characters \<^verbatim>\<open>str.strip()\<close> removes, among the ASCII ones.\<close>

definition is_space :: "char \<Rightarrow> bool" where
  "is_space c = ((9::nat) \<le> of_char c \<and> (of_char c :: nat) \<le> 13
                 \<or> (28::nat) \<le> of_char c \<and> (of_char c :: nat) \<le> 32)"

definition strip :: "string \<Rightarrow> string" where
  "strip s = rev (dropWhile is_space (rev (dropWhile is_space s)))"

fun split_ws :: "string \<Rightarrow> string \<Rightarrow> string list" where
  "split_ws cur [] = (if cur = [] then [] else [cur])"
| "split_ws cur (c # cs) =
     (if is_space c then (if cur = [] then split_ws [] cs else cur # split_ws [] cs)
      else split_ws (cur @ [c]) cs)"

definition has_class :: "string \<Rightarrow> node \<Rightarrow> bool" where
  "has_class cls n =
     (case map_of (attrs n) ''class'' of
        None \<Rightarrow> False
      | Some v \<Rightarrow> cls \<in> set (split_ws [] v))"

fun contains :: "string \<Rightarrow> string \<Rightarrow> bool" where
  "contains pat [] = (pat = [])"
| "contains pat (c # cs) = (prefix pat (c # cs) \<or> contains pat cs)"

text \<open>
  The descendants of an element in document order, each with its ancestors (nearest
  first) and whether it is the first element among its siblings.
\<close>

fun walk :: "node list \<Rightarrow> node \<Rightarrow> (node list \<times> bool \<times> node) list"
  and walk_children :: "node list \<Rightarrow> bool \<Rightarrow> node list \<Rightarrow> (node list \<times> bool \<times> node) list" where
  "walk anc (Text s) = []"
| "walk anc (Tag t a cs) = walk_children (Tag t a cs # anc) True cs"
| "walk_children anc first [] = []"
| "walk_children anc first (c # cs) =
     (anc, first \<and> is_tag c, c) # walk anc c @ walk_children anc (first \<and> \<not> is_tag c) cs"

definition matcher :: "string \<Rightarrow> (node list \<times> bool \<times> node \<Rightarrow> bool) option" where
  "matcher sel =
     (if sel = ''div.group.relative'' then
        Some (\<lambda>(anc, fc, n). tag_named ''div'' n \<and> has_class ''group'' n \<and> has_class ''relative'' n)
      else if sel = ''a[href*='/index/']'' then
        Some (\<lambda>(anc, fc, n). tag_named ''a'' n \<and>
                (case map_of (attrs n) ''href'' of None \<Rightarrow> False | Some v \<Rightarrow> contains ''/index/'' v))
      else if sel = ''div.text-h5'' then
        Some (\<lambda>(anc, fc, n). tag_named ''div'' n \<and> has_class ''text-h5'' n)
      else if sel = ''time[datetime]'' then
        Some (\<lambda>(anc, fc, n). tag_named ''time'' n \<and> map_of (attrs n) ''datetime'' \<noteq> None)
      else if sel = ''span.text-meta span:first-child'' then
        Some (\<lambda>(anc, fc, n). tag_named ''span'' n \<and> fc \<and>
                list_ex (\<lambda>a. tag_named ''span'' a \<and> has_class ''text-meta'' a) anc)
      else if sel = ''p.text-meta'' then
        Some (\<lambda>(anc, fc, n). tag_named ''p'' n \<and> has_class ''text-meta'' n)
      else None)"

definition soup_select :: "node \<Rightarrow> string \<Rightarrow> exn + node list" where
  "soup_select scope sel =
     (case matcher sel of
        None \<Rightarrow> Inl (OtherException ''unsupported selector'')
      | Some P \<Rightarrow> Inr (map (\<lambda>(anc, fc, n). n) (filter P (walk [] scope))))"

definition soup_select_one :: "node \<Rightarrow> string \<Rightarrow> exn + node option" where
  "soup_select_one scope sel =
     (case soup_select scope sel of
        Inl e \<Rightarrow> Inl e
      | Inr [] \<Rightarrow> Inr None
      | Inr (n # _) \<Rightarrow> Inr (Some n))"

definition soup_get :: "node \<Rightarrow> string \<Rightarrow> string \<Rightarrow> exn + string" where
  "soup_get n key dflt = Inr (case map_of (attrs n) key of None \<Rightarrow> dflt | Some v \<Rightarrow> v)"

text \<open>
  \<^verbatim>\<open>get_text(strip=True)\<close> of an ordinary element: every text below the element,
  stripped, the empty ones left out. The parser gives the text inside \<^verbatim>\<open>script\<close>,
  \<^verbatim>\<open>style\<close>, \<^verbatim>\<open>template\<close>, \<^verbatim>\<open>rt\<close> and \<^verbatim>\<open>rp\<close> elements a string class of its own,
  which \<^verbatim>\<open>get_text\<close> leaves out.
\<close>

definition string_containers :: "string list" where
  "string_containers = [''rt'', ''rp'', ''style'', ''script'', ''template'']"

fun strings :: "node \<Rightarrow> string list" where
  "strings (Text s) = [s]"
| "strings (Tag t a cs) =
     (if t \<in> set string_containers then [] else concat (map strings cs))"

definition soup_get_text :: "node \<Rightarrow> exn + string" where
  "soup_get_text n =
     Inr (concat (filter (\<lambda>s. s \<noteq> [])
                    (map strip (concat (map strings (children n))))))"

text \<open>\<^verbatim>\<open>find_all(name, recursive=False)\<close>: the children with that tag name.\<close>

definition soup_find_all :: "node \<Rightarrow> string \<Rightarrow> exn + node list" where
  "soup_find_all n name = Inr (filter (tag_named name) (children n))"

text \<open>
  \<^verbatim>\<open>datetime.strptime\<close> for the two formats of the program. Each directive tries the
  alternatives of its pattern in order (\<^verbatim>\<open>%m\<close> is \<^verbatim>\<open>1[0-2]|0[1-9]|[1-9]\<close>); the first
  way through the whole format wins, and text left over after it is a \<^verbatim>\<open>ValueError\<close>, as
  is a date the calendar does not have. The result is naive.
\<close>

definition is_digit :: "char \<Rightarrow> bool" where
  "is_digit c = ((48::nat) \<le> of_char c \<and> (of_char c :: nat) \<le> 57)"

definition digit_val :: "char \<Rightarrow> nat" where
  "digit_val c = of_char c - 48"

definition two_digits :: "(nat \<Rightarrow> nat \<Rightarrow> bool) \<Rightarrow> string \<Rightarrow> (nat \<times> string) list" where
  "two_digits P s =
     (case s of
        a # b # rest \<Rightarrow>
          if is_digit a \<and> is_digit b \<and> P (digit_val a) (digit_val b)
          then [(digit_val a * 10 + digit_val b, rest)] else []
      | _ \<Rightarrow> [])"

definition one_digit :: "(nat \<Rightarrow> bool) \<Rightarrow> string \<Rightarrow> (nat \<times> string) list" where
  "one_digit P s =
     (case s of
        a # rest \<Rightarrow> if is_digit a \<and> P (digit_val a) then [(digit_val a, rest)] else []
      | _ \<Rightarrow> [])"

definition literal :: "char list \<Rightarrow> string \<Rightarrow> string list" where
  "literal cs s = (case s of a # rest \<Rightarrow> if a \<in> set cs then [rest] else [] | _ \<Rightarrow> [])"

definition match_Y :: "string \<Rightarrow> (nat \<times> string) list" where
  "match_Y s =
     (case s of
        a # b # c # d # rest \<Rightarrow>
          if is_digit a \<and> is_digit b \<and> is_digit c \<and> is_digit d
          then [(((digit_val a * 10 + digit_val b) * 10 + digit_val c) * 10 + digit_val d, rest)]
          else []
      | _ \<Rightarrow> [])"

definition match_m :: "string \<Rightarrow> (nat \<times> string) list" where
  "match_m s = two_digits (\<lambda>a b. a = 1 \<and> b \<le> 2 \<or> a = 0 \<and> 1 \<le> b) s @ one_digit (\<lambda>a. 1 \<le> a) s"

definition match_d :: "string \<Rightarrow> (nat \<times> string) list" where
  "match_d s =
     two_digits (\<lambda>a b. a = 3 \<and> b \<le> 1 \<or> 1 \<le> a \<and> a \<le> 2 \<or> a = 0 \<and> 1 \<le> b) s
     @ one_digit (\<lambda>a. 1 \<le> a) s
     @ concat (map (one_digit (\<lambda>a. 1 \<le> a)) (literal '' '' s))"

definition match_H :: "string \<Rightarrow> (nat \<times> string) list" where
  "match_H s = two_digits (\<lambda>a b. a = 2 \<and> b \<le> 3 \<or> a \<le> 1) s @ one_digit (\<lambda>a. True) s"

definition match_M :: "string \<Rightarrow> (nat \<times> string) list" where
  "match_M s = two_digits (\<lambda>a b. a \<le> 5) s @ one_digit (\<lambda>a. True) s"

definition match_date :: "string \<Rightarrow> (nat \<times> nat \<times> nat \<times> string) list" where
  "match_date s =
     [(y, m, d, s5). (y, s1) \<leftarrow> match_Y s, s2 \<leftarrow> literal ''-'' s1, (m, s3) \<leftarrow> match_m s2,
                     s4 \<leftarrow> literal ''-'' s3, (d, s5) \<leftarrow> match_d s4]"

definition match_date_minute :: "string \<Rightarrow> (nat \<times> nat \<times> nat \<times> nat \<times> nat \<times> string) list" where
  "match_date_minute s =
     [(y, m, d, H, M, s5). (y, m, d, s1) \<leftarrow> match_date s, s2 \<leftarrow> literal ''Tt'' s1,
                           (H, s3) \<leftarrow> match_H s2, s4 \<leftarrow> literal '':'' s3, (M, s5) \<leftarrow> match_M s4]"

fun build_datetime :: "(nat \<times> nat \<times> nat \<times> nat \<times> nat \<times> string) list \<Rightarrow> exn + datetime" where
  "build_datetime [] = Inl (ValueError ''time data does not match format'')"
| "build_datetime ((y, m, d, H, M, rest) # _) =
     (if rest \<noteq> [] then Inl (ValueError ''unconverted data remains'')
      else if y < 1 then Inl (ValueError ''year is out of range'')
      else if days_in_month y m < d then Inl (ValueError ''day is out of range for month'')
      else Inr \<lparr>year = y, month = m, day = d, hour = H, minute = M, second = 0,
                tzinfo = None\<rparr>)"

definition py_strptime :: "string \<Rightarrow> string \<Rightarrow> exn + datetime" where
  "py_strptime s fmt =
     (if fmt = ''%Y-%m-%dT%H:%M'' then build_datetime (match_date_minute s)
      else if fmt = ''%Y-%m-%d''
      then build_datetime (map (\<lambda>(y, m, d, rest). (y, m, d, 0, 0, rest)) (match_date s))
      else Inl (OtherException ''unsupported format''))"

text \<open>
  The instance, for a process whose string hash is \<open>h\<close>. A document is the list of its
  top-level nodes.
\<close>

definition soup_lib :: "(string \<Rightarrow> int) \<Rightarrow> (node list, node) lib" where
  "soup_lib h =
     \<lparr>BeautifulSoup = (\<lambda>doc. Inr (Tag ''[document]'' [] doc)),
      select = soup_select,
      select_one = soup_select_one,
      get = soup_get,
      get_text = soup_get_text,
      find_all = soup_find_all,
      strptime = py_strptime,
      hash = h\<rparr>"

section \<open>The deduplication, specified\<close>

text \<open>
  The elements of a list that are the first with their key, given the keys seen before:
  what the loop's test on \<^verbatim>\<open>seen_links\<close> is meant to keep. It serves the proofs about
  the loop.
\<close>

fun first_seen :: "('a \<Rightarrow> 'k) \<Rightarrow> 'k set \<Rightarrow> 'a list \<Rightarrow> 'a list" where
  "first_seen key seen [] = []"
| "first_seen key seen (x # xs) =
     (if key x \<in> seen then first_seen key seen xs
      else x # first_seen key (insert (key x) seen) xs)"


text \<open>
  What holds of every record the loop builds: a date in UTC, a non-empty title, a
  non-empty link that begins with \<^verbatim>\<open>http\<close>, and the title as description.
\<close>

definition record_ok :: "article \<Rightarrow> bool" where
  "record_ok r =
     (tzinfo (date r) = Some UTC \<and> title r \<noteq> [] \<and> link r \<noteq> [] \<and> prefix ''http'' (link r)
      \<and> description r = title r)"

section \<open>Sample documents\<close>

text \<open>
  Cards of a listing page, as parse trees, and the string hash of a sample process.
  \<open>card_foo\<close> and \<open>card_bar\<close> are the two cards of the specification's end-to-end sample.
\<close>

definition sample_hash :: "string \<Rightarrow> int" where
  "sample_hash s = - int (length s)"

definition sample_lib :: "(node list, node) lib" where
  "sample_lib = soup_lib sample_hash"

definition card_foo :: node where
  "card_foo =
     Tag ''div'' [(''class'', ''group relative'')]
       [Tag ''a'' [(''href'', ''/index/foo'')]
          [Tag ''div'' [(''class'', ''text-h5'')] [Text '' Foo Launch ''],
           Tag ''span'' [(''class'', ''text-meta'')]
             [Tag ''span'' [] [Text ''Research''],
              Tag ''time'' [(''datetime'', ''2024-03-01T12:00'')] [Text ''Mar 1, 2024'']]]]"

definition card_foo_again :: node where
  "card_foo_again =
     Tag ''div'' [(''class'', ''relative group wide'')]
       [Tag ''a'' [(''href'', ''https://openai.com/index/foo'')]
          [Tag ''div'' [(''class'', ''text-h5'')] [Text ''Foo, once more'']],
        Tag ''p'' [(''class'', ''text-meta'')]
          [Text '' '', Tag ''span'' [] [Text ''Company''],
           Tag ''time'' [(''datetime'', ''2024-03-02'')] []]]"

definition card_bar :: node where
  "card_bar =
     Tag ''div'' [(''class'', ''group relative'')]
       [Tag ''a'' [(''href'', ''https://openai.com/index/bar'')]
          [Tag ''div'' [(''class'', ''text-h5'')] [Text ''Bar Update'']]]"

text \<open>
  The records of \<open>card_foo\<close> and \<open>card_bar\<close>. The link of \<open>card_bar\<close> has 28
  characters, so in the sample process its fallback date is 28 days after the epoch.
\<close>

definition article_foo :: article where
  "article_foo =
     \<lparr>title = ''Foo Launch'', link = ''https://openai.com/index/foo'',
      date = \<lparr>year = 2024, month = 3, day = 1, hour = 12, minute = 0, second = 0,
               tzinfo = Some UTC\<rparr>,
      category = ''Research'', description = ''Foo Launch''\<rparr>"

definition article_bar :: article where
  "article_bar =
     \<lparr>title = ''Bar Update'', link = ''https://openai.com/index/bar'',
      date = \<lparr>year = 2023, month = 1, day = 29, hour = 0, minute = 0, second = 0,
               tzinfo = Some UTC\<rparr>,
      category = ''Engineering'', description = ''Bar Update''\<rparr>"

text \<open>Two cards with the link \<^verbatim>\<open>/index/baz\<close>: the first has a blank title.\<close>

definition card_blank_title :: node where
  "card_blank_title =
     Tag ''div'' [(''class'', ''group relative'')]
       [Tag ''a'' [(''href'', ''/index/baz'')]
          [Tag ''div'' [(''class'', ''text-h5'')] [Text ''   ''],
           Tag ''span'' [(''class'', ''text-meta'')]
             [Tag ''span'' [] [Text ''Safety''],
              Tag ''time'' [(''datetime'', ''2024-04-05'')] []]]]"

definition card_baz :: node where
  "card_baz =
     Tag ''div'' [(''class'', ''group relative'')]
       [Tag ''a'' [(''href'', ''/index/baz'')]
          [Tag ''div'' [(''class'', ''text-h5'')] [Text ''Baz''],
           Tag ''span'' [(''class'', ''text-meta'')]
             [Tag ''span'' [] [Text ''Safety''],
              Tag ''time'' [(''datetime'', ''2024-04-05'')] []]]]"

text \<open>A card without a title element, and one whose date is not in either format.\<close>

definition card_no_title :: node where
  "card_no_title =
     Tag ''div'' [(''class'', ''group relative'')]
       [Tag ''a'' [(''href'', ''/index/qux'')]
          [Text ''Qux'',
           Tag ''span'' [(''class'', ''text-meta'')]
             [Tag ''span'' [] [Text ''Safety''],
              Tag ''time'' [(''datetime'', ''2024-04-05'')] []]]]"

definition card_bad_date :: node where
  "card_bad_date =
     Tag ''div'' [(''class'', ''group relative'')]
       [Tag ''a'' [(''href'', ''/index/quux'')]
          [Tag ''div'' [(''class'', ''text-h5'')] [Text ''Quux''],
           Tag ''time'' [(''datetime'', ''March 2024'')] [Text ''March 2024'']]]"

text \<open>
  Cards for the category: a first label that is blank, on either path, and a
  category paragraph without a label.
\<close>

definition card_blank_label :: node where
  "card_blank_label =
     Tag ''div'' [(''class'', ''group relative'')]
       [Tag ''a'' [(''href'', ''/index/one'')]
          [Tag ''div'' [(''class'', ''text-h5'')] [Text ''One''],
           Tag ''span'' [(''class'', ''text-meta'')]
             [Tag ''span'' [] [Text '' ''],
              Tag ''time'' [(''datetime'', ''2024-05-06'')] []]]]"

definition card_blank_p_label :: node where
  "card_blank_p_label =
     Tag ''div'' [(''class'', ''group relative'')]
       [Tag ''a'' [(''href'', ''/index/two'')]
          [Tag ''div'' [(''class'', ''text-h5'')] [Text ''Two'']],
        Tag ''p'' [(''class'', ''text-meta'')]
          [Tag ''span'' [] [], Tag ''span'' [] [Text ''Product''],
           Tag ''time'' [(''datetime'', ''2024-05-06'')] []]]"

definition card_p_no_label :: node where
  "card_p_no_label =
     Tag ''div'' [(''class'', ''group relative'')]
       [Tag ''a'' [(''href'', ''/index/three'')]
          [Tag ''div'' [(''class'', ''text-h5'')] [Text ''Three'']],
        Tag ''p'' [(''class'', ''text-meta'')]
          [Text ''Product'', Tag ''time'' [(''datetime'', ''2024-05-06'')] []]]"

text \<open>A card whose link target is a relative path that begins with \<^verbatim>\<open>http\<close>.\<close>

definition card_http_relative :: node where
  "card_http_relative =
     Tag ''div'' [(''class'', ''group relative'')]
       [Tag ''a'' [(''href'', ''httpx/index/a'')]
          [Tag ''div'' [(''class'', ''text-h5'')] [Text ''Relative''],
           Tag ''time'' [(''datetime'', ''2024-05-06'')] []]]"

text \<open>
  A library in which reading the text of a marked element raises, and a card with such
  a title element.
\<close>

definition raising_lib :: "(node list, node) lib" where
  "raising_lib =
     sample_lib\<lparr>get_text := (\<lambda>n. if map_of (attrs n) ''data-raise'' \<noteq> None
                                 then Inl (OtherException ''cannot read text'')
                                 else soup_get_text n)\<rparr>"

definition card_raising :: node where
  "card_raising =
     Tag ''div'' [(''class'', ''group relative'')]
       [Tag ''a'' [(''href'', ''/index/raising'')]
          [Tag ''div'' [(''class'', ''text-h5''), (''data-raise'', ''1'')] [Text ''Raising''],
           Tag ''time'' [(''datetime'', ''2024-05-06'')] []]]"

text \<open>
  A second card with the link of \<open>card_raising\<close> whose title can be read, and its
  record.
\<close>

definition card_raising_twin :: node where
  "card_raising_twin =
     Tag ''div'' [(''class'', ''group relative'')]
       [Tag ''a'' [(''href'', ''/index/raising'')]
          [Tag ''div'' [(''class'', ''text-h5'')] [Text ''Twin''],
           Tag ''time'' [(''datetime'', ''2024-05-06'')] []]]"

definition article_twin :: article where
  "article_twin =
     \<lparr>title = ''Twin'', link = ''https://openai.com/index/raising'',
      date = \<lparr>year = 2024, month = 5, day = 6, hour = 0, minute = 0, second = 0,
               tzinfo = Some UTC\<rparr>,
      category = ''Engineering'', description = ''Twin''\<rparr>"

text \<open>
  A card whose only anchor does not lead to an article, and the record of \<open>card_baz\<close>.
\<close>

definition card_no_link :: node where
  "card_no_link =
     Tag ''div'' [(''class'', ''group relative'')]
       [Tag ''a'' [(''href'', ''/news/all'')]
          [Tag ''div'' [(''class'', ''text-h5'')] [Text ''All news'']]]"

definition article_baz :: article where
  "article_baz =
     \<lparr>title = ''Baz'', link = ''https://openai.com/index/baz'',
      date = \<lparr>year = 2024, month = 4, day = 5, hour = 0, minute = 0, second = 0,
               tzinfo = Some UTC\<rparr>,
      category = ''Safety'', description = ''Baz''\<rparr>"

section \<open>Calendar arithmetic\<close>

lemma div32: "32 * m \<le> n + 50 \<Longrightarrow> n + 50 < 32 * m + 32 \<Longrightarrow> (n + 50) div 32 = (m::nat)"
  by (rule div_nat_eqI) simp_all

lemma month_cases:
  fixes n :: nat
  assumes "n < 366"
  obtains "(n + 50) div 32 = 1" "n < 14"
  | "(n + 50) div 32 = 2" "14 \<le> n" "n < 46"
  | "(n + 50) div 32 = 3" "46 \<le> n" "n < 78"
  | "(n + 50) div 32 = 4" "78 \<le> n" "n < 110"
  | "(n + 50) div 32 = 5" "110 \<le> n" "n < 142"
  | "(n + 50) div 32 = 6" "142 \<le> n" "n < 174"
  | "(n + 50) div 32 = 7" "174 \<le> n" "n < 206"
  | "(n + 50) div 32 = 8" "206 \<le> n" "n < 238"
  | "(n + 50) div 32 = 9" "238 \<le> n" "n < 270"
  | "(n + 50) div 32 = 10" "270 \<le> n" "n < 302"
  | "(n + 50) div 32 = 11" "302 \<le> n" "n < 334"
  | "(n + 50) div 32 = 12" "334 \<le> n" "n < 366"
proof -
  consider "n < 14" | "14 \<le> n \<and> n < 46" | "46 \<le> n \<and> n < 78" | "78 \<le> n \<and> n < 110"
    | "110 \<le> n \<and> n < 142" | "142 \<le> n \<and> n < 174" | "174 \<le> n \<and> n < 206"
    | "206 \<le> n \<and> n < 238" | "238 \<le> n \<and> n < 270" | "270 \<le> n \<and> n < 302"
    | "302 \<le> n \<and> n < 334" | "334 \<le> n \<and> n < 366"
    using assms by linarith
  then show ?thesis
  proof cases
    case 1 then show ?thesis using div32[of 1 n] that(1) by simp
  next
    case 2 then show ?thesis using div32[of 2 n] that(2) by simp
  next
    case 3 then show ?thesis using div32[of 3 n] that(3) by simp
  next
    case 4 then show ?thesis using div32[of 4 n] that(4) by simp
  next
    case 5 then show ?thesis using div32[of 5 n] that(5) by simp
  next
    case 6 then show ?thesis using div32[of 6 n] that(6) by simp
  next
    case 7 then show ?thesis using div32[of 7 n] that(7) by simp
  next
    case 8 then show ?thesis using div32[of 8 n] that(8) by simp
  next
    case 9 then show ?thesis using div32[of 9 n] that(9) by simp
  next
    case 10 then show ?thesis using div32[of 10 n] that(10) by simp
  next
    case 11 then show ?thesis using div32[of 11 n] that(11) by simp
  next
    case 12 then show ?thesis using div32[of 12 n] that(12) by simp
  qed
qed

text \<open>
  Within one year \<open>month_day\<close> is right: the month is a month, the day is a day of that
  month, and the days before it add up to the day of the year.
\<close>

lemma month_day_correct:
  assumes "n < 365 + (if leap then 1 else 0)" and "month_day leap n = (m, d)"
  shows "1 \<le> m \<and> m \<le> 12 \<and> 1 \<le> d
         \<and> d \<le> DAYS_IN_MONTH m + (if m = 2 \<and> leap then 1 else 0)
         \<and> DAYS_BEFORE_MONTH m + (if m > 2 \<and> leap then 1 else 0) + d = n + 1"
proof -
  have n: "n < 366" using assms(1) by (simp split: if_splits)
  note defs = month_day_def Let_def
  from n show ?thesis
  proof (cases rule: month_cases)
    case 1 then show ?thesis using assms by (auto simp: defs split: if_splits)
  next
    case 2 then show ?thesis using assms by (auto simp: defs split: if_splits)
  next
    case 3 then show ?thesis using assms by (auto simp: defs split: if_splits)
  next
    case 4 then show ?thesis using assms by (auto simp: defs split: if_splits)
  next
    case 5 then show ?thesis using assms by (auto simp: defs split: if_splits)
  next
    case 6 then show ?thesis using assms by (auto simp: defs split: if_splits)
  next
    case 7 then show ?thesis using assms by (auto simp: defs split: if_splits)
  next
    case 8 then show ?thesis using assms by (auto simp: defs split: if_splits)
  next
    case 9 then show ?thesis using assms by (auto simp: defs split: if_splits)
  next
    case 10 then show ?thesis using assms by (auto simp: defs split: if_splits)
  next
    case 11 then show ?thesis using assms by (auto simp: defs split: if_splits)
  next
    case 12 then show ?thesis using assms by (auto simp: defs split: if_splits)
  qed
qed

lemma days_in_month_le_31: "DAYS_IN_MONTH m + (if m = 2 \<and> leap then 1 else 0) \<le> 31"
  by simp

lemma div_mod_offset:
  fixes q b r :: nat
  assumes "r < b"
  shows "(q * b + r) div b = q" and "(q * b + r) mod b = r"
  using assms by simp_all

text \<open>The ordinals of the two years after the epoch, decomposed as \<open>ord2ymd\<close> does.\<close>

lemma ord2ymd_2023:
  assumes "k < 365"
  shows "ord2ymd (738521 + k) = (2023, month_day False k)"
proof -
  have a: "(738520 + k) div 146097 = 5" "(738520 + k) mod 146097 = 8035 + k"
    using div_mod_offset[of "8035 + k" 146097 5] assms by simp_all
  have b: "(8035 + k) div 36524 = 0" "(8035 + k) mod 36524 = 8035 + k"
    using assms by simp_all
  have c: "(8035 + k) div 1461 = 5" "(8035 + k) mod 1461 = 730 + k"
    using div_mod_offset[of "730 + k" 1461 5] assms by simp_all
  have d: "(730 + k) div 365 = 2" "(730 + k) mod 365 = k"
    using div_mod_offset[of k 365 2] assms by simp_all
  show ?thesis
    by (simp add: ord2ymd_def Let_def a b c d)
qed

lemma ord2ymd_2024:
  assumes "365 \<le> k" and "k < 730"
  shows "ord2ymd (738521 + k) = (2024, month_day True (k - 365))"
proof -
  have a: "(738520 + k) div 146097 = 5" "(738520 + k) mod 146097 = 8035 + k"
    using div_mod_offset[of "8035 + k" 146097 5] assms by simp_all
  have b: "(8035 + k) div 36524 = 0" "(8035 + k) mod 36524 = 8035 + k"
    using assms by simp_all
  have c: "(8035 + k) div 1461 = 5" "(8035 + k) mod 1461 = 730 + k"
    using div_mod_offset[of "730 + k" 1461 5] assms by simp_all
  have d: "(730 + k) div 365 = 3" "(730 + k) mod 365 = k - 365"
    using div_mod_offset[of "k - 365" 365 3] assms by simp_all
  show ?thesis
    by (simp add: ord2ymd_def Let_def a b c d)
qed

lemma toordinal_epoch: "toordinal epoch = 738521"
  by (simp add: toordinal_def epoch_def ymd2ord_def days_before_year_def
      days_before_month_def)

lemma ord2ymd_window:
  assumes "k < 730"
  obtains y m d where "ord2ymd (738521 + k) = (y, m, d)"
    and "y = 2023 \<or> y = 2024" and "1 \<le> m" and "m \<le> 12" and "1 \<le> d" and "d \<le> 31"
    and "ymd2ord y m d = 738521 + k"
proof (cases "k < 365")
  case True
  obtain m d where md: "month_day False k = (m, d)" by (cases "month_day False k")
  from month_day_correct[of k False m d] True md
  have *: "1 \<le> m" "m \<le> 12" "1 \<le> d" "d \<le> DAYS_IN_MONTH m + (if m = 2 \<and> False then 1 else 0)"
    "DAYS_BEFORE_MONTH m + d = k + 1"
    by simp_all
  have "d \<le> 31" using *(4) days_in_month_le_31[of m False] by linarith
  moreover have "ymd2ord 2023 m d = 738521 + k"
    using *(5) by (simp add: ymd2ord_def days_before_year_def days_before_month_def is_leap_def)
  ultimately show ?thesis
    using that[of 2023 m d] ord2ymd_2023[OF True] md * by simp
next
  case False
  then have k: "365 \<le> k" "k < 730" using assms by simp_all
  obtain m d where md: "month_day True (k - 365) = (m, d)" by (cases "month_day True (k - 365)")
  from month_day_correct[of "k - 365" True m d] k md
  have *: "1 \<le> m" "m \<le> 12" "1 \<le> d" "d \<le> DAYS_IN_MONTH m + (if m = 2 \<and> True then 1 else 0)"
    "DAYS_BEFORE_MONTH m + (if m > 2 then 1 else 0) + d = k - 365 + 1"
    by simp_all
  have "d \<le> 31" using *(4) days_in_month_le_31[of m True] by linarith
  moreover have "ymd2ord 2024 m d = 738521 + k"
    using *(5) k by (simp add: ymd2ord_def days_before_year_def days_before_month_def is_leap_def)
  ultimately show ?thesis
    using that[of 2024 m d] ord2ymd_2024[OF k] md * by simp
qed

section \<open>Properties of the date resolver\<close>

lemma hash_val_bounds: "0 \<le> hash_val h identifier \<and> hash_val h identifier \<le> 729"
proof -
  have "\<bar>h identifier\<bar> mod 730 < 730" by (rule pos_mod_bound) simp
  moreover have "0 \<le> \<bar>h identifier\<bar> mod 730" by (rule pos_mod_sign) simp
  ultimately show ?thesis by (simp add: hash_val_def)
qed

text \<open>
  Adding fewer than 730 days to the epoch never overflows, and gives the date of the
  ordinal that many days later, at midnight UTC, in 2023 or 2024.
\<close>

lemma add_days_epoch:
  assumes "k < 730"
  obtains y m d where "add_days epoch k = Inr (epoch\<lparr>year := y, month := m, day := d\<rparr>)"
    and "y = 2023 \<or> y = 2024" and "1 \<le> m" and "m \<le> 12" and "1 \<le> d" and "d \<le> 31"
    and "ymd2ord y m d = 738521 + k"
proof -
  from assms obtain y m d where o: "ord2ymd (738521 + k) = (y, m, d)"
    and r: "y = 2023 \<or> y = 2024" "1 \<le> m" "m \<le> 12" "1 \<le> d" "d \<le> 31"
      "ymd2ord y m d = 738521 + k"
    by (rule ord2ymd_window)
  have "add_days epoch k = Inr (epoch\<lparr>year := y, month := m, day := d\<rparr>)"
    using assms o by (simp add: add_days_def toordinal_epoch MAXORDINAL_def)
  then show ?thesis using r that by blast
qed

lemma stable_fallback_date_returns:
  obtains d where "stable_fallback_date h identifier = Inr d"
    and "toordinal d = toordinal epoch + nat (hash_val h identifier)"
    and "hour d = 0" and "minute d = 0" and "second d = 0" and "tzinfo d = Some UTC"
    and "year d = 2023 \<or> year d = 2024" and "1 \<le> month d" and "month d \<le> 12"
    and "1 \<le> day d" and "day d \<le> 31"
proof -
  have k: "nat (hash_val h identifier) < 730"
    using hash_val_bounds[of h "identifier"] by linarith
  from add_days_epoch[OF k] obtain y m d
    where a: "add_days epoch (nat (hash_val h identifier))
                = Inr (epoch\<lparr>year := y, month := m, day := d\<rparr>)"
      and r: "y = 2023 \<or> y = 2024" "1 \<le> m" "m \<le> 12" "1 \<le> d" "d \<le> 31"
        "ymd2ord y m d = 738521 + nat (hash_val h identifier)"
    by blast
  show ?thesis
  proof (rule that[of "epoch\<lparr>year := y, month := m, day := d\<rparr>"])
    show "stable_fallback_date h identifier = Inr (epoch\<lparr>year := y, month := m, day := d\<rparr>)"
      using a by (simp add: stable_fallback_date_def)
    show "toordinal (epoch\<lparr>year := y, month := m, day := d\<rparr>)
            = toordinal epoch + nat (hash_val h identifier)"
      using r(6) by (simp add: toordinal_def toordinal_epoch[unfolded toordinal_def])
  qed (use r in \<open>simp_all add: epoch_def\<close>)
qed

text \<open>
  C2. For every identifier the resolver returns a timestamp (it does not raise): the
  offset lies in [0, 729], the timestamp is that many whole days after the epoch
  2023-01-01T00:00:00 UTC, at the same time of day and in UTC, and it lies between
  2023-01-01T00:00:00Z and 2024-12-31T00:00:00Z.
\<close>

theorem stable_fallback_date_range:
  "\<exists>d. stable_fallback_date h identifier = Inr d
       \<and> 0 \<le> hash_val h identifier \<and> hash_val h identifier \<le> 729
       \<and> toordinal d = toordinal epoch + nat (hash_val h identifier)
       \<and> hour d = hour epoch \<and> minute d = minute epoch \<and> second d = second epoch
       \<and> tzinfo d = Some UTC
       \<and> datetime_le epoch d
       \<and> datetime_le d \<lparr>year = 2024, month = 12, day = 31, hour = 0, minute = 0, second = 0,
                          tzinfo = Some UTC\<rparr>"
proof -
  obtain d where d: "stable_fallback_date h identifier = Inr d"
    "toordinal d = toordinal epoch + nat (hash_val h identifier)"
    "hour d = 0" "minute d = 0" "second d = 0" "tzinfo d = Some UTC"
    "year d = 2023 \<or> year d = 2024" "1 \<le> month d" "month d \<le> 12"
    "1 \<le> day d" "day d \<le> 31"
    by (rule stable_fallback_date_returns)
  have lo: "datetime_le epoch d"
    using d(3-5,7,8,10) by (auto simp: datetime_le_def epoch_def less_eq_prod_def)
  have hi: "datetime_le d \<lparr>year = 2024, month = 12, day = 31, hour = 0, minute = 0,
                           second = 0, tzinfo = Some UTC\<rparr>"
    using d(3-5,7,9,11) by (auto simp: datetime_le_def less_eq_prod_def)
  show ?thesis
    using d(1-6) lo hi hash_val_bounds[of h "identifier"] by (simp add: epoch_def)
qed

theorem stable_fallback_date_range_witness:
  "stable_fallback_date (\<lambda>s. - int (length s)) ''https://openai.com/index/bar''
     = Inr (epoch\<lparr>year := 2023, month := 1, day := 29\<rparr>)
   \<and> hash_val (\<lambda>s. - int (length s)) ''https://openai.com/index/bar'' = 28
   \<and> datetime_le epoch (epoch\<lparr>year := 2023, month := 1, day := 29\<rparr>)
   \<and> datetime_le (epoch\<lparr>year := 2023, month := 1, day := 29\<rparr>)
        \<lparr>year = 2024, month = 12, day = 31, hour = 0, minute = 0, second = 0,
         tzinfo = Some UTC\<rparr>"
proof -
  have a: "add_days epoch 28 = Inr (epoch\<lparr>year := 2023, month := 1, day := 29\<rparr>)"
    by (simp add: add_days_def toordinal_epoch MAXORDINAL_def ord2ymd_def month_day_def
        Let_def)
  have v: "stable_fallback_date (\<lambda>s. - int (length s)) ''https://openai.com/index/bar''
             = Inr (epoch\<lparr>year := 2023, month := 1, day := 29\<rparr>)"
    by (simp add: stable_fallback_date_def hash_val_def a)
  have "hash_val (\<lambda>s. - int (length s)) ''https://openai.com/index/bar'' = 28"
    by (simp add: hash_val_def)
  then show ?thesis
    using stable_fallback_date_range[of "\<lambda>s. - int (length s)"
        "''https://openai.com/index/bar''"] v
    by auto
qed

text \<open>
  C7. Within one process, whose string hash is \<open>h\<close>, two calls of the resolver with
  the same identifier both return, and return the same timestamp.
\<close>

theorem stable_fallback_date_deterministic:
  assumes "identifier' = identifier"
  shows "\<exists>d. stable_fallback_date h identifier = Inr d
             \<and> stable_fallback_date h identifier' = Inr d"
proof -
  obtain d where "stable_fallback_date h identifier = Inr d"
    by (rule stable_fallback_date_returns)
  with assms show ?thesis by simp
qed

theorem stable_fallback_date_deterministic_witness:
  "\<exists>d. stable_fallback_date (\<lambda>s. - int (length s)) ''https://openai.com/index/bar'' = Inr d
       \<and> stable_fallback_date (\<lambda>s. - int (length s)) (''https://openai.com'' @ ''/index/bar'')
           = Inr d"
  using stable_fallback_date_deterministic[of "''https://openai.com'' @ ''/index/bar''"
      "''https://openai.com/index/bar''" "\<lambda>s. - int (length s)"]
  by simp

text \<open>
  The qualification to one process is needed: in two processes whose hashes of the
  identifier differ, the resolver gives different timestamps.
\<close>

lemma stable_fallback_date_across_processes:
  "stable_fallback_date (\<lambda>s. 1) ''x'' \<noteq> stable_fallback_date (\<lambda>s. 2) ''x''"
  by (simp add: stable_fallback_date_def hash_val_def add_days_def toordinal_epoch
      MAXORDINAL_def ord2ymd_def month_day_def Let_def)
    (simp add: epoch_def)

section \<open>Properties of one iteration\<close>

lemma articles_skip_article [simp]: "articles (skip_article st e) = articles st"
  and seen_links_skip_article [simp]: "seen_links (skip_article st e) = seen_links st"
  and logged_skip_article [simp]:
    "logged (skip_article st e) = logged st @ [Warning_skipping_article e]"
  by (simp_all add: skip_article_def)

text \<open>The ways through the body of the \<^verbatim>\<open>try\<close>, one lemma for each way out.\<close>

lemma try_card_link_raises:
  "find_link L c = Inl e \<Longrightarrow> try_card L st c = (st, Some e)"
  by (simp add: try_card_def)

lemma try_card_no_link:
  "find_link L c = Inr None \<Longrightarrow> try_card L st c = (st, None)"
  by (simp add: try_card_def)

lemma try_card_duplicate:
  "find_link L c = Inr (Some l) \<Longrightarrow> l \<in> seen_links st \<Longrightarrow> try_card L st c = (st, None)"
  by (simp add: try_card_def)

lemma try_card_title_raises:
  "find_link L c = Inr (Some l) \<Longrightarrow> l \<notin> seen_links st \<Longrightarrow> extract_title L c = Inl e
   \<Longrightarrow> try_card L st c = (st\<lparr>seen_links := insert l (seen_links st)\<rparr>, Some e)"
  by (simp add: try_card_def)

lemma try_card_no_title:
  "find_link L c = Inr (Some l) \<Longrightarrow> l \<notin> seen_links st \<Longrightarrow> extract_title L c = Inr None
   \<Longrightarrow> try_card L st c = (st\<lparr>seen_links := insert l (seen_links st)\<rparr>, None)"
  by (simp add: try_card_def)

lemma try_card_date_raises:
  "find_link L c = Inr (Some l) \<Longrightarrow> l \<notin> seen_links st \<Longrightarrow> extract_title L c = Inr (Some t)
   \<Longrightarrow> extract_date L c t l = (w, Inl e)
   \<Longrightarrow> try_card L st c
       = (st\<lparr>seen_links := insert l (seen_links st), logged := logged st @ w\<rparr>, Some e)"
  by (simp add: try_card_def)

lemma try_card_category_raises:
  "find_link L c = Inr (Some l) \<Longrightarrow> l \<notin> seen_links st \<Longrightarrow> extract_title L c = Inr (Some t)
   \<Longrightarrow> extract_date L c t l = (w, Inr d) \<Longrightarrow> extract_category L c = Inl e
   \<Longrightarrow> try_card L st c
       = (st\<lparr>seen_links := insert l (seen_links st), logged := logged st @ w\<rparr>, Some e)"
  by (simp add: try_card_def)

lemma try_card_appends:
  "find_link L c = Inr (Some l) \<Longrightarrow> l \<notin> seen_links st \<Longrightarrow> extract_title L c = Inr (Some t)
   \<Longrightarrow> extract_date L c t l = (w, Inr d) \<Longrightarrow> extract_category L c = Inr cat
   \<Longrightarrow> try_card L st c
       = (st\<lparr>seen_links := insert l (seen_links st), logged := logged st @ w,
              articles := articles st @
                [\<lparr>title = t, link = l, date = d, category = cat, description = t\<rparr>]\<rparr>, None)"
  by (simp add: try_card_def)

text \<open>
  What an iteration does to the state: either no record is added, or exactly one is,
  built from the results of the four parts, and its link was new.
\<close>

lemma process_card_cases:
  obtains (skipped) "articles (process_card L st c) = articles st"
      "seen_links (process_card L st c) = seen_links st
       \<or> (\<exists>l. find_link L c = Inr (Some l) \<and> l \<notin> seen_links st
              \<and> seen_links (process_card L st c) = insert l (seen_links st))"
  | (added) l t w d cat where "find_link L c = Inr (Some l)" "l \<notin> seen_links st"
      "extract_title L c = Inr (Some t)" "extract_date L c t l = (w, Inr d)"
      "extract_category L c = Inr cat"
      "process_card L st c =
         st\<lparr>seen_links := insert l (seen_links st), logged := logged st @ w,
            articles := articles st @
              [\<lparr>title = t, link = l, date = d, category = cat, description = t\<rparr>]\<rparr>"
proof (cases "find_link L c")
  case (Inl e)
  then show ?thesis
    using skipped by (simp add: process_card_def try_card_link_raises)
next
  case (Inr lo)
  show ?thesis
  proof (cases lo)
    case None
    with Inr show ?thesis
      using skipped by (simp add: process_card_def try_card_no_link)
  next
    case (Some l)
    with Inr have l: "find_link L c = Inr (Some l)" by simp
    show ?thesis
    proof (cases "l \<in> seen_links st")
      case True
      with l show ?thesis
        using skipped by (simp add: process_card_def try_card_duplicate)
    next
      case new: False
      show ?thesis
      proof (cases "extract_title L c")
        case (Inl e)
        with l new show ?thesis
          using skipped by (simp add: process_card_def try_card_title_raises)
      next
        case (Inr topt)
        show ?thesis
        proof (cases topt)
          case None
          with Inr l new show ?thesis
            using skipped by (simp add: process_card_def try_card_no_title)
        next
          case (Some t)
          with Inr have t: "extract_title L c = Inr (Some t)" by simp
          obtain w r where wr: "extract_date L c t l = (w, r)"
            by (cases "extract_date L c t l")
          show ?thesis
          proof (cases r)
            case (Inl e)
            with wr l new t show ?thesis
              using skipped by (simp add: process_card_def try_card_date_raises)
          next
            case (Inr d)
            with wr have d: "extract_date L c t l = (w, Inr d)" by simp
            show ?thesis
            proof (cases "extract_category L c")
              case (Inl e)
              with d l new t show ?thesis
                using skipped by (simp add: process_card_def try_card_category_raises)
            next
              case (Inr cat)
              with d l new t show ?thesis
                using added[of l t w d cat] by (simp add: process_card_def try_card_appends)
            qed
          qed
        qed
      qed
    qed
  qed
qed

section \<open>Properties of the loop\<close>

lemma for_cards_append:
  "for_cards L st (cs @ cs') = for_cards L (for_cards L st cs) cs'"
  by (induction cs arbitrary: st) simp_all



lemma seen_links_process_card_mono: "seen_links st \<subseteq> seen_links (process_card L st c)"
  by (cases rule: process_card_cases[where L=L and st=st and c=c]) auto

lemma seen_links_for_cards_mono: "seen_links st \<subseteq> seen_links (for_cards L st cs)"
proof (induction cs arbitrary: st)
  case Nil
  show ?case by simp
next
  case (Cons c cs)
  from seen_links_process_card_mono[of st L c] Cons.IH[of "process_card L st c"]
  show ?case by simp
qed




text \<open>A link that is in \<^verbatim>\<open>seen_links\<close> without a record never gets one.\<close>

lemma seen_without_record_process_card:
  assumes "l \<in> seen_links st" and "l \<notin> link ` set (articles st)"
  shows "l \<notin> link ` set (articles (process_card L st c))"
proof (cases rule: process_card_cases[where L=L and st=st and c=c])
  case skipped
  with assms show ?thesis by simp
next
  case (added l' t w d cat)
  with assms show ?thesis by auto
qed

lemma seen_without_record_for_cards:
  assumes "l \<in> seen_links st" and "l \<notin> link ` set (articles st)"
  shows "l \<notin> link ` set (articles (for_cards L st cs))"
  using assms
proof (induction cs arbitrary: st)
  case Nil
  then show ?case by simp
next
  case (Cons c cs)
  have "l \<in> seen_links (process_card L st c)"
    using Cons.prems(1) seen_links_process_card_mono[of st L c] by blast
  moreover have "l \<notin> link ` set (articles (process_card L st c))"
    using Cons.prems by (rule seen_without_record_process_card)
  ultimately show ?case using Cons.IH by simp
qed

text \<open>Every record carries the link of one of the cards.\<close>

lemma links_process_card:
  "link ` set (articles (process_card L st c))
     \<subseteq> link ` set (articles st) \<union> {l. find_link L c = Inr (Some l)}"
  by (cases rule: process_card_cases[where L=L and st=st and c=c]) auto

lemma links_for_cards:
  "link ` set (articles (for_cards L st cs))
     \<subseteq> link ` set (articles st) \<union> {l. \<exists>c \<in> set cs. find_link L c = Inr (Some l)}"
proof (induction cs arbitrary: st)
  case Nil
  show ?case by simp
next
  case (Cons c cs)
  from Cons.IH[of "process_card L st c"] links_process_card[of L st c]
  show ?case by auto
qed

subsection \<open>The cards that are first with their link\<close>

lemma first_seen_subset: "set (first_seen key seen xs) \<subseteq> set xs"
  by (induction xs arbitrary: seen) auto





subsection \<open>Runs over well-formed cards\<close>


section \<open>Deduplication\<close>

lemma parse_openai_eng_html_eq:
  assumes "BeautifulSoup L html = Inr soup" and "select L soup ''div.group.relative'' = Inr cards"
  shows "parse_openai_eng_html L html = Inr (articles (for_cards L initial_state cards))"
  using assms by (simp add: parse_openai_eng_html_def run_extraction_def Let_def)



section \<open>The parts of a record\<close>

text \<open>When an iteration adds a record, the record is made of what the four parts returned.\<close>

lemma process_card_added:
  assumes "articles (process_card L st c) = articles st @ [r]"
  obtains w where "find_link L c = Inr (Some (link r))" and "link r \<notin> seen_links st"
    and "extract_title L c = Inr (Some (title r))"
    and "extract_date L c (title r) (link r) = (w, Inr (date r))"
    and "extract_category L c = Inr (category r)"
    and "description r = title r"
proof (cases rule: process_card_cases[where L=L and st=st and c=c])
  case skipped
  with assms show ?thesis by simp
next
  case (added l t w d cat)
  with assms have "r = \<lparr>title = t, link = l, date = d, category = cat, description = t\<rparr>"
    by simp
  with added that[of w] show ?thesis by simp
qed

lemma extract_title_missing_or_empty:
  assumes "select_one L c ''div.text-h5'' = Inr None
           \<or> (\<exists>title_elem. select_one L c ''div.text-h5'' = Inr (Some title_elem)
                  \<and> get_text L title_elem = Inr [])"
  shows "extract_title L c = Inr None"
  using assms by (auto simp: extract_title_def)

text \<open>
  C5. A card whose title element is missing, or whose title text is empty after
  stripping, adds no record, whatever its other fields and whatever the state.
\<close>

theorem no_title_no_record:
  assumes "select_one L c ''div.text-h5'' = Inr None
           \<or> (\<exists>title_elem. select_one L c ''div.text-h5'' = Inr (Some title_elem)
                  \<and> get_text L title_elem = Inr [])"
  shows "articles (process_card L st c) = articles st"
proof (cases rule: process_card_cases[where L=L and st=st and c=c])
  case skipped
  then show ?thesis by simp
next
  case (added l t w d cat)
  with extract_title_missing_or_empty[OF assms] show ?thesis by simp
qed

text \<open>
  C6. A card without a category label (no first nested label in a meta line, and either
  no category paragraph or one without a label among its children) gives a record whose
  category is \<^verbatim>\<open>Engineering\<close>.
\<close>

theorem category_default:
  assumes "select_one L c ''span.text-meta span:first-child'' = Inr None"
    and "select_one L c ''p.text-meta'' = Inr None
         \<or> (\<exists>meta_p. select_one L c ''p.text-meta'' = Inr (Some meta_p)
                \<and> find_all L meta_p ''span'' = Inr [])"
    and "articles (process_card L st c) = articles st @ [r]"
  shows "category r = ''Engineering''"
proof -
  have "extract_category L c = Inr ''Engineering''"
    using assms(1,2) by (auto simp: extract_category_def)
  moreover from assms(3) have "extract_category L c = Inr (category r)"
    by (rule process_card_added)
  ultimately show ?thesis by simp
qed

text \<open>
  C10. A card whose first category label exists but is empty after stripping, on either
  path, gives a record whose category is the empty string, not \<^verbatim>\<open>Engineering\<close>.
\<close>

theorem empty_label_empty_category:
  assumes "(\<exists>category_span.
              select_one L c ''span.text-meta span:first-child'' = Inr (Some category_span)
              \<and> get_text L category_span = Inr [])
           \<or> (\<exists>meta_p span0 spans.
                 select_one L c ''span.text-meta span:first-child'' = Inr None
                 \<and> select_one L c ''p.text-meta'' = Inr (Some meta_p)
                 \<and> find_all L meta_p ''span'' = Inr (span0 # spans)
                 \<and> get_text L span0 = Inr [])"
    and "articles (process_card L st c) = articles st @ [r]"
  shows "category r = [] \<and> category r \<noteq> ''Engineering''"
proof -
  have "extract_category L c = Inr []"
    using assms(1) by (auto simp: extract_category_def)
  moreover from assms(2) have "extract_category L c = Inr (category r)"
    by (rule process_card_added)
  ultimately show ?thesis by simp
qed

text \<open>
  C3. The date of a record. With a time element whose \<^verbatim>\<open>datetime\<close> attribute is \<open>s\<close>:
  if \<open>s\<close> parses in the date-and-minute format, the date is that result in UTC;
  if that raises \<^verbatim>\<open>ValueError\<close> and \<open>s\<close> parses in the date-only format, the date is
  that result in UTC; if both raise \<^verbatim>\<open>ValueError\<close>, the date is the resolver's for the
  record's link. Without a time element it is the resolver's too. The record's link is
  the card's absolute URL.
\<close>

theorem date_of_record:
  assumes "articles (process_card L st c) = articles st @ [r]"
  shows "find_link L c = Inr (Some (link r))
    \<and> (\<forall>time_elem s.
          select_one L c ''time[datetime]'' = Inr (Some time_elem)
          \<and> get L time_elem ''datetime'' [] = Inr s \<longrightarrow>
            (\<forall>d. strptime L s ''%Y-%m-%dT%H:%M'' = Inr d \<longrightarrow> date r = d\<lparr>tzinfo := Some UTC\<rparr>)
          \<and> (\<forall>m d. strptime L s ''%Y-%m-%dT%H:%M'' = Inl (ValueError m)
                    \<and> strptime L s ''%Y-%m-%d'' = Inr d \<longrightarrow> date r = d\<lparr>tzinfo := Some UTC\<rparr>)
          \<and> (\<forall>m m'. strptime L s ''%Y-%m-%dT%H:%M'' = Inl (ValueError m)
                     \<and> strptime L s ''%Y-%m-%d'' = Inl (ValueError m') \<longrightarrow>
                  stable_fallback_date (hash L) (link r) = Inr (date r)))
    \<and> (select_one L c ''time[datetime]'' = Inr None \<longrightarrow>
          stable_fallback_date (hash L) (link r) = Inr (date r))"
proof -
  from assms obtain w where l: "find_link L c = Inr (Some (link r))"
    and d: "extract_date L c (title r) (link r) = (w, Inr (date r))"
    by (rule process_card_added)
  have a: "date r = d'\<lparr>tzinfo := Some UTC\<rparr>"
    if "select_one L c ''time[datetime]'' = Inr (Some te)" "get L te ''datetime'' [] = Inr s"
      "strptime L s ''%Y-%m-%dT%H:%M'' = Inr d'" for te s d'
    using d that by (simp add: extract_date_def parse_datetime_str_def replace_tzinfo_def)
  have b: "date r = d'\<lparr>tzinfo := Some UTC\<rparr>"
    if "select_one L c ''time[datetime]'' = Inr (Some te)" "get L te ''datetime'' [] = Inr s"
      "strptime L s ''%Y-%m-%dT%H:%M'' = Inl (ValueError m)"
      "strptime L s ''%Y-%m-%d'' = Inr d'" for te s m d'
    using d that by (simp add: extract_date_def parse_datetime_str_def replace_tzinfo_def)
  have c: "stable_fallback_date (hash L) (link r) = Inr (date r)"
    if "select_one L c ''time[datetime]'' = Inr (Some te)" "get L te ''datetime'' [] = Inr s"
      "strptime L s ''%Y-%m-%dT%H:%M'' = Inl (ValueError m)"
      "strptime L s ''%Y-%m-%d'' = Inl (ValueError m')" for te s m m'
    using d that by (simp add: extract_date_def parse_datetime_str_def)
  have e: "stable_fallback_date (hash L) (link r) = Inr (date r)"
    if "select_one L c ''time[datetime]'' = Inr None"
    using d that by (simp add: extract_date_def)
  from l a b c e show ?thesis by blast
qed

section \<open>Exceptions in one card\<close>


section \<open>A link recorded before the title is checked\<close>

text \<open>
  C9. When the first card with the link \<open>l\<close> has no title element or an empty title,
  no record of the result has the link \<open>l\<close>, whatever cards follow: the link is in
  \<^verbatim>\<open>seen_links\<close> by then, so a later card with the same link and a good title is dropped.
\<close>

theorem untitled_first_card_blocks_link:
  assumes "BeautifulSoup L html = Inr soup"
    and "select L soup ''div.group.relative'' = Inr (cs1 @ c # cs2)"
    and "\<forall>x \<in> set cs1. find_link L x \<noteq> Inr (Some l)"
    and "find_link L c = Inr (Some l)"
    and "select_one L c ''div.text-h5'' = Inr None
         \<or> (\<exists>title_elem. select_one L c ''div.text-h5'' = Inr (Some title_elem)
                \<and> get_text L title_elem = Inr [])"
  shows "\<exists>out. parse_openai_eng_html L html = Inr out \<and> l \<notin> link ` set out"
proof -
  let ?st1 = "for_cards L initial_state cs1"
  have t: "extract_title L c = Inr None"
    using assms(5) by (rule extract_title_missing_or_empty)
  have n1: "l \<notin> link ` set (articles ?st1)"
    using links_for_cards[of L initial_state cs1] assms(3)
    by (auto simp: initial_state_def)
  have n2: "l \<notin> link ` set (articles (process_card L ?st1 c))"
  proof (cases rule: process_card_cases[where L=L and st="?st1" and c=c])
    case skipped
    with n1 show ?thesis by simp
  next
    case (added l' t' w d cat)
    with t show ?thesis by simp
  qed
  have s: "l \<in> seen_links (process_card L ?st1 c)"
  proof (cases "l \<in> seen_links ?st1")
    case True
    then show ?thesis using seen_links_process_card_mono[of ?st1 L c] by blast
  next
    case False
    then show ?thesis
      using assms(4) t by (simp add: process_card_def try_card_no_title)
  qed
  have "l \<notin> link ` set (articles (for_cards L (process_card L ?st1 c) cs2))"
    using s n2 by (rule seen_without_record_for_cards)
  then show ?thesis
    using parse_openai_eng_html_eq[OF assms(1,2)] by (simp add: for_cards_append)
qed

section \<open>The sample cards, part by part\<close>

lemma hash_sample_lib: "hash sample_lib = sample_hash"
  by (simp add: sample_lib_def soup_lib_def)

lemma BeautifulSoup_sample_lib: "BeautifulSoup sample_lib doc = Inr (Tag ''[document]'' [] doc)"
  by (simp add: sample_lib_def soup_lib_def)

lemma sample_fallback_28:
  "stable_fallback_date sample_hash ''https://openai.com/index/bar''
     = Inr \<lparr>year = 2023, month = 1, day = 29, hour = 0, minute = 0, second = 0,
             tzinfo = Some UTC\<rparr>"
proof -
  have "add_days epoch 28 = Inr (epoch\<lparr>year := 2023, month := 1, day := 29\<rparr>)"
    by (simp add: add_days_def toordinal_epoch MAXORDINAL_def ord2ymd_def month_day_def
        Let_def)
  then show ?thesis
    by (simp add: stable_fallback_date_def hash_val_def sample_hash_def epoch_def)
qed

lemma foo_link: "find_link sample_lib card_foo = Inr (Some ''https://openai.com/index/foo'')"
  by code_simp

lemma foo_title: "extract_title sample_lib card_foo = Inr (Some ''Foo Launch'')"
  by code_simp

lemma foo_date:
  "extract_date sample_lib card_foo t l
     = ([], Inr \<lparr>year = 2024, month = 3, day = 1, hour = 12, minute = 0, second = 0,
                 tzinfo = Some UTC\<rparr>)"
  by code_simp

lemma foo_category: "extract_category sample_lib card_foo = Inr ''Research''"
  by code_simp

lemma foo_again_link:
  "find_link sample_lib card_foo_again = Inr (Some ''https://openai.com/index/foo'')"
  by code_simp

lemma foo_again_title: "extract_title sample_lib card_foo_again = Inr (Some ''Foo, once more'')"
  by code_simp

lemma foo_again_date:
  "extract_date sample_lib card_foo_again t l
     = ([], Inr \<lparr>year = 2024, month = 3, day = 2, hour = 0, minute = 0, second = 0,
                 tzinfo = Some UTC\<rparr>)"
  by code_simp

lemma foo_again_category: "extract_category sample_lib card_foo_again = Inr ''Company''"
  by code_simp

lemma bar_link: "find_link sample_lib card_bar = Inr (Some ''https://openai.com/index/bar'')"
  by code_simp

lemma bar_title: "extract_title sample_lib card_bar = Inr (Some ''Bar Update'')"
  by code_simp

lemma bar_time: "select_one sample_lib card_bar ''time[datetime]'' = Inr None"
  by code_simp

lemma bar_date:
  "extract_date sample_lib card_bar t ''https://openai.com/index/bar''
     = ([], Inr \<lparr>year = 2023, month = 1, day = 29, hour = 0, minute = 0, second = 0,
                 tzinfo = Some UTC\<rparr>)"
  by (simp add: extract_date_def bar_time hash_sample_lib sample_fallback_28)

lemma bar_category: "extract_category sample_lib card_bar = Inr ''Engineering''"
  by code_simp

lemma blank_title_link:
  "find_link sample_lib card_blank_title = Inr (Some ''https://openai.com/index/baz'')"
  by code_simp

lemma blank_title_elem:
  "select_one sample_lib card_blank_title ''div.text-h5''
     = Inr (Some (Tag ''div'' [(''class'', ''text-h5'')] [Text ''   '']))"
  by code_simp

lemma blank_title_text:
  "get_text sample_lib (Tag ''div'' [(''class'', ''text-h5'')] [Text ''   '']) = Inr []"
  by code_simp

lemma baz_link: "find_link sample_lib card_baz = Inr (Some ''https://openai.com/index/baz'')"
  by code_simp

lemma baz_title: "extract_title sample_lib card_baz = Inr (Some ''Baz'')"
  by code_simp



lemma process_foo:
  "''https://openai.com/index/foo'' \<notin> seen_links st \<Longrightarrow>
   process_card sample_lib st card_foo
     = st\<lparr>seen_links := insert ''https://openai.com/index/foo'' (seen_links st),
          articles := articles st @ [article_foo]\<rparr>"
  by (simp add: process_card_def try_card_def foo_link foo_title foo_date foo_category
      article_foo_def)

lemma process_bar:
  "''https://openai.com/index/bar'' \<notin> seen_links st \<Longrightarrow>
   process_card sample_lib st card_bar
     = st\<lparr>seen_links := insert ''https://openai.com/index/bar'' (seen_links st),
          articles := articles st @ [article_bar]\<rparr>"
  by (simp add: process_card_def try_card_def bar_link bar_title bar_date bar_category
      article_bar_def)









section \<open>Titles, categories and dates on the sample cards\<close>

lemma no_title_elem: "select_one sample_lib card_no_title ''div.text-h5'' = Inr None"
  by code_simp

theorem no_title_no_record_witness:
  "select_one sample_lib card_no_title ''div.text-h5'' = Inr None
   \<and> articles (process_card sample_lib initial_state card_no_title) = []
   \<and> select_one sample_lib card_blank_title ''div.text-h5''
       = Inr (Some (Tag ''div'' [(''class'', ''text-h5'')] [Text ''   '']))
   \<and> get_text sample_lib (Tag ''div'' [(''class'', ''text-h5'')] [Text ''   '']) = Inr []
   \<and> articles (process_card sample_lib initial_state card_blank_title) = []"
  using no_title_no_record[where L = sample_lib and c = card_no_title and st = initial_state]
    no_title_no_record[where L = sample_lib and c = card_blank_title and st = initial_state]
  by (simp add: no_title_elem blank_title_elem blank_title_text initial_state_def)

lemma bar_no_span: "select_one sample_lib card_bar ''span.text-meta span:first-child'' = Inr None"
  by code_simp

lemma bar_no_p: "select_one sample_lib card_bar ''p.text-meta'' = Inr None"
  by code_simp

lemma p_no_label_link:
  "find_link sample_lib card_p_no_label = Inr (Some ''https://openai.com/index/three'')"
  by code_simp

lemma p_no_label_title: "extract_title sample_lib card_p_no_label = Inr (Some ''Three'')"
  by code_simp

lemma p_no_label_date:
  "extract_date sample_lib card_p_no_label t l
     = ([], Inr \<lparr>year = 2024, month = 5, day = 6, hour = 0, minute = 0, second = 0,
                 tzinfo = Some UTC\<rparr>)"
  by code_simp

lemma p_no_label_category: "extract_category sample_lib card_p_no_label = Inr ''Engineering''"
  by code_simp

lemma p_no_label_no_span:
  "select_one sample_lib card_p_no_label ''span.text-meta span:first-child'' = Inr None"
  by code_simp

lemma p_no_label_p:
  "select_one sample_lib card_p_no_label ''p.text-meta''
     = Inr (Some (Tag ''p'' [(''class'', ''text-meta'')]
                    [Text ''Product'', Tag ''time'' [(''datetime'', ''2024-05-06'')] []]))"
  by code_simp

lemma p_no_label_spans:
  "find_all sample_lib (Tag ''p'' [(''class'', ''text-meta'')]
                    [Text ''Product'', Tag ''time'' [(''datetime'', ''2024-05-06'')] []]) ''span''
     = Inr []"
  by code_simp

lemma process_p_no_label:
  "articles (process_card sample_lib initial_state card_p_no_label)
     = articles initial_state @
       [\<lparr>title = ''Three'', link = ''https://openai.com/index/three'',
         date = \<lparr>year = 2024, month = 5, day = 6, hour = 0, minute = 0, second = 0,
                  tzinfo = Some UTC\<rparr>,
         category = ''Engineering'', description = ''Three''\<rparr>]"
  by (simp add: process_card_def try_card_def p_no_label_link p_no_label_title
      p_no_label_date p_no_label_category initial_state_def)

lemma process_bar_initial:
  "articles (process_card sample_lib initial_state card_bar)
     = articles initial_state @ [article_bar]"
  by (simp add: process_bar initial_state_def)

theorem category_default_witness:
  "select_one sample_lib card_bar ''span.text-meta span:first-child'' = Inr None
   \<and> select_one sample_lib card_bar ''p.text-meta'' = Inr None
   \<and> articles (process_card sample_lib initial_state card_bar) = [article_bar]
   \<and> category article_bar = ''Engineering''
   \<and> select_one sample_lib card_p_no_label ''span.text-meta span:first-child'' = Inr None
   \<and> find_all sample_lib (Tag ''p'' [(''class'', ''text-meta'')]
                    [Text ''Product'', Tag ''time'' [(''datetime'', ''2024-05-06'')] []]) ''span''
       = Inr []
   \<and> map category (articles (process_card sample_lib initial_state card_p_no_label))
       = [''Engineering'']"
proof -
  have "category article_bar = ''Engineering''"
    using category_default[where L = sample_lib and c = card_bar and st = initial_state
        and r = article_bar]
    by (simp add: bar_no_span bar_no_p process_bar_initial)
  moreover have "category \<lparr>title = ''Three'', link = ''https://openai.com/index/three'',
         date = \<lparr>year = 2024, month = 5, day = 6, hour = 0, minute = 0, second = 0,
                  tzinfo = Some UTC\<rparr>,
         category = ''Engineering'', description = ''Three''\<rparr> = ''Engineering''"
    using category_default[where L = sample_lib and c = card_p_no_label
        and st = initial_state, OF p_no_label_no_span _ process_p_no_label]
    by (simp add: p_no_label_p p_no_label_spans)
  ultimately show ?thesis
    using process_bar_initial process_p_no_label
    by (simp add: bar_no_span bar_no_p p_no_label_no_span p_no_label_spans initial_state_def)
qed

lemma blank_label_link:
  "find_link sample_lib card_blank_label = Inr (Some ''https://openai.com/index/one'')"
  by code_simp

lemma blank_label_title: "extract_title sample_lib card_blank_label = Inr (Some ''One'')"
  by code_simp

lemma blank_label_date:
  "extract_date sample_lib card_blank_label t l
     = ([], Inr \<lparr>year = 2024, month = 5, day = 6, hour = 0, minute = 0, second = 0,
                 tzinfo = Some UTC\<rparr>)"
  by code_simp

lemma blank_label_span:
  "select_one sample_lib card_blank_label ''span.text-meta span:first-child''
     = Inr (Some (Tag ''span'' [] [Text '' '']))"
  by code_simp

lemma blank_label_text: "get_text sample_lib (Tag ''span'' [] [Text '' '']) = Inr []"
  by code_simp

lemma blank_label_category: "extract_category sample_lib card_blank_label = Inr []"
  by (simp add: extract_category_def blank_label_span blank_label_text)

lemma process_blank_label:
  "articles (process_card sample_lib initial_state card_blank_label)
     = articles initial_state @
       [\<lparr>title = ''One'', link = ''https://openai.com/index/one'',
         date = \<lparr>year = 2024, month = 5, day = 6, hour = 0, minute = 0, second = 0,
                  tzinfo = Some UTC\<rparr>,
         category = [], description = ''One''\<rparr>]"
  by (simp add: process_card_def try_card_def blank_label_link blank_label_title
      blank_label_date blank_label_category initial_state_def)

lemma blank_p_label_link:
  "find_link sample_lib card_blank_p_label = Inr (Some ''https://openai.com/index/two'')"
  by code_simp

lemma blank_p_label_title: "extract_title sample_lib card_blank_p_label = Inr (Some ''Two'')"
  by code_simp

lemma blank_p_label_date:
  "extract_date sample_lib card_blank_p_label t l
     = ([], Inr \<lparr>year = 2024, month = 5, day = 6, hour = 0, minute = 0, second = 0,
                 tzinfo = Some UTC\<rparr>)"
  by code_simp

lemma blank_p_label_no_span:
  "select_one sample_lib card_blank_p_label ''span.text-meta span:first-child'' = Inr None"
  by code_simp

lemma blank_p_label_p:
  "select_one sample_lib card_blank_p_label ''p.text-meta''
     = Inr (Some (Tag ''p'' [(''class'', ''text-meta'')]
                    [Tag ''span'' [] [], Tag ''span'' [] [Text ''Product''],
                     Tag ''time'' [(''datetime'', ''2024-05-06'')] []]))"
  by code_simp

lemma blank_p_label_spans:
  "find_all sample_lib (Tag ''p'' [(''class'', ''text-meta'')]
                    [Tag ''span'' [] [], Tag ''span'' [] [Text ''Product''],
                     Tag ''time'' [(''datetime'', ''2024-05-06'')] []]) ''span''
     = Inr [Tag ''span'' [] [], Tag ''span'' [] [Text ''Product'']]"
  by code_simp

lemma blank_p_label_text: "get_text sample_lib (Tag ''span'' [] []) = Inr []"
  by code_simp

lemma blank_p_label_category: "extract_category sample_lib card_blank_p_label = Inr []"
  by (simp add: extract_category_def blank_p_label_no_span blank_p_label_p
      blank_p_label_spans blank_p_label_text)

lemma process_blank_p_label:
  "articles (process_card sample_lib initial_state card_blank_p_label)
     = articles initial_state @
       [\<lparr>title = ''Two'', link = ''https://openai.com/index/two'',
         date = \<lparr>year = 2024, month = 5, day = 6, hour = 0, minute = 0, second = 0,
                  tzinfo = Some UTC\<rparr>,
         category = [], description = ''Two''\<rparr>]"
  by (simp add: process_card_def try_card_def blank_p_label_link blank_p_label_title
      blank_p_label_date blank_p_label_category initial_state_def)

theorem empty_label_empty_category_witness:
  "select_one sample_lib card_blank_label ''span.text-meta span:first-child''
     = Inr (Some (Tag ''span'' [] [Text '' '']))
   \<and> get_text sample_lib (Tag ''span'' [] [Text '' '']) = Inr []
   \<and> map category (articles (process_card sample_lib initial_state card_blank_label)) = [[]]
   \<and> select_one sample_lib card_blank_p_label ''span.text-meta span:first-child'' = Inr None
   \<and> find_all sample_lib (Tag ''p'' [(''class'', ''text-meta'')]
                    [Tag ''span'' [] [], Tag ''span'' [] [Text ''Product''],
                     Tag ''time'' [(''datetime'', ''2024-05-06'')] []]) ''span''
       = Inr [Tag ''span'' [] [], Tag ''span'' [] [Text ''Product'']]
   \<and> get_text sample_lib (Tag ''span'' [] []) = Inr []
   \<and> map category (articles (process_card sample_lib initial_state card_blank_p_label)) = [[]]
   \<and> [] \<noteq> ''Engineering''"
proof -
  have a: "category \<lparr>title = ''One'', link = ''https://openai.com/index/one'',
         date = \<lparr>year = 2024, month = 5, day = 6, hour = 0, minute = 0, second = 0,
                  tzinfo = Some UTC\<rparr>,
         category = [], description = ''One''\<rparr> = []"
    using empty_label_empty_category[where L = sample_lib and c = card_blank_label
        and st = initial_state, OF _ process_blank_label]
    by (simp add: blank_label_span blank_label_text)
  have b: "category \<lparr>title = ''Two'', link = ''https://openai.com/index/two'',
         date = \<lparr>year = 2024, month = 5, day = 6, hour = 0, minute = 0, second = 0,
                  tzinfo = Some UTC\<rparr>,
         category = [], description = ''Two''\<rparr> = []"
    using empty_label_empty_category[where L = sample_lib and c = card_blank_p_label
        and st = initial_state, OF _ process_blank_p_label]
    by (simp add: blank_p_label_no_span blank_p_label_p blank_p_label_spans
        blank_p_label_text)
  from a b show ?thesis
    using process_blank_label process_blank_p_label
    by (simp add: blank_label_span blank_label_text blank_p_label_no_span
        blank_p_label_spans blank_p_label_text initial_state_def)
qed

section \<open>Dates on the sample cards\<close>

lemma strptime_sample_lib: "strptime sample_lib = py_strptime"
  by (simp add: sample_lib_def soup_lib_def)

lemma foo_time:
  "select_one sample_lib card_foo ''time[datetime]''
     = Inr (Some (Tag ''time'' [(''datetime'', ''2024-03-01T12:00'')] [Text ''Mar 1, 2024'']))"
  by code_simp

lemma foo_datetime_str:
  "get sample_lib (Tag ''time'' [(''datetime'', ''2024-03-01T12:00'')] [Text ''Mar 1, 2024''])
     ''datetime'' [] = Inr ''2024-03-01T12:00''"
  by code_simp

lemma foo_strptime:
  "strptime sample_lib ''2024-03-01T12:00'' ''%Y-%m-%dT%H:%M''
     = Inr \<lparr>year = 2024, month = 3, day = 1, hour = 12, minute = 0, second = 0,
             tzinfo = None\<rparr>"
  by code_simp

lemma process_foo_initial:
  "articles (process_card sample_lib initial_state card_foo)
     = articles initial_state @ [article_foo]"
  by (simp add: process_foo initial_state_def)

lemma foo_again_time:
  "select_one sample_lib card_foo_again ''time[datetime]''
     = Inr (Some (Tag ''time'' [(''datetime'', ''2024-03-02'')] []))"
  by code_simp

lemma foo_again_datetime_str:
  "get sample_lib (Tag ''time'' [(''datetime'', ''2024-03-02'')] []) ''datetime'' []
     = Inr ''2024-03-02''"
  by code_simp

lemma foo_again_strptime_minute:
  "strptime sample_lib ''2024-03-02'' ''%Y-%m-%dT%H:%M''
     = Inl (ValueError ''time data does not match format'')"
  by code_simp

lemma foo_again_strptime_day:
  "strptime sample_lib ''2024-03-02'' ''%Y-%m-%d''
     = Inr \<lparr>year = 2024, month = 3, day = 2, hour = 0, minute = 0, second = 0,
             tzinfo = None\<rparr>"
  by code_simp

lemma process_foo_again_initial:
  "articles (process_card sample_lib initial_state card_foo_again)
     = articles initial_state @
       [\<lparr>title = ''Foo, once more'', link = ''https://openai.com/index/foo'',
         date = \<lparr>year = 2024, month = 3, day = 2, hour = 0, minute = 0, second = 0,
                  tzinfo = Some UTC\<rparr>,
         category = ''Company'', description = ''Foo, once more''\<rparr>]"
  by (simp add: process_card_def try_card_def foo_again_link foo_again_title foo_again_date
      foo_again_category initial_state_def)

lemma bad_date_link:
  "find_link sample_lib card_bad_date = Inr (Some ''https://openai.com/index/quux'')"
  by code_simp

lemma bad_date_title: "extract_title sample_lib card_bad_date = Inr (Some ''Quux'')"
  by code_simp

lemma bad_date_category: "extract_category sample_lib card_bad_date = Inr ''Engineering''"
  by code_simp

lemma bad_date_time:
  "select_one sample_lib card_bad_date ''time[datetime]''
     = Inr (Some (Tag ''time'' [(''datetime'', ''March 2024'')] [Text ''March 2024'']))"
  by code_simp

lemma bad_date_datetime_str:
  "get sample_lib (Tag ''time'' [(''datetime'', ''March 2024'')] [Text ''March 2024''])
     ''datetime'' [] = Inr ''March 2024''"
  by code_simp

lemma bad_date_strptime_minute:
  "strptime sample_lib ''March 2024'' ''%Y-%m-%dT%H:%M''
     = Inl (ValueError ''time data does not match format'')"
  by code_simp

lemma bad_date_strptime_day:
  "strptime sample_lib ''March 2024'' ''%Y-%m-%d''
     = Inl (ValueError ''time data does not match format'')"
  by code_simp

lemma sample_fallback_29:
  "stable_fallback_date sample_hash ''https://openai.com/index/quux''
     = Inr \<lparr>year = 2023, month = 1, day = 30, hour = 0, minute = 0, second = 0,
             tzinfo = Some UTC\<rparr>"
proof -
  have "add_days epoch 29 = Inr (epoch\<lparr>year := 2023, month := 1, day := 30\<rparr>)"
    by (simp add: add_days_def toordinal_epoch MAXORDINAL_def ord2ymd_def month_day_def
        Let_def)
  then show ?thesis
    by (simp add: stable_fallback_date_def hash_val_def sample_hash_def epoch_def)
qed

lemma bad_date_date:
  "extract_date sample_lib card_bad_date t ''https://openai.com/index/quux''
     = ([Warning_date_parsing_failed t],
        Inr \<lparr>year = 2023, month = 1, day = 30, hour = 0, minute = 0, second = 0,
              tzinfo = Some UTC\<rparr>)"
  by (simp add: extract_date_def parse_datetime_str_def bad_date_time bad_date_datetime_str
      bad_date_strptime_minute bad_date_strptime_day hash_sample_lib sample_fallback_29)

lemma process_bad_date:
  "process_card sample_lib initial_state card_bad_date
     = \<lparr>articles =
          [\<lparr>title = ''Quux'', link = ''https://openai.com/index/quux'',
            date = \<lparr>year = 2023, month = 1, day = 30, hour = 0, minute = 0, second = 0,
                     tzinfo = Some UTC\<rparr>,
            category = ''Engineering'', description = ''Quux''\<rparr>],
        seen_links = {''https://openai.com/index/quux''},
        logged = [Warning_date_parsing_failed ''Quux'']\<rparr>"
  by (simp add: process_card_def try_card_def bad_date_link bad_date_title bad_date_date
      bad_date_category initial_state_def)

theorem date_of_record_witness:
  "strptime sample_lib ''2024-03-01T12:00'' ''%Y-%m-%dT%H:%M''
     = Inr \<lparr>year = 2024, month = 3, day = 1, hour = 12, minute = 0, second = 0,
             tzinfo = None\<rparr>
   \<and> articles (process_card sample_lib initial_state card_foo) = [article_foo]
   \<and> date article_foo
       = \<lparr>year = 2024, month = 3, day = 1, hour = 12, minute = 0, second = 0,
          tzinfo = Some UTC\<rparr>
   \<and> strptime sample_lib ''2024-03-02'' ''%Y-%m-%dT%H:%M''
       = Inl (ValueError ''time data does not match format'')
   \<and> strptime sample_lib ''2024-03-02'' ''%Y-%m-%d''
       = Inr \<lparr>year = 2024, month = 3, day = 2, hour = 0, minute = 0, second = 0,
               tzinfo = None\<rparr>
   \<and> map date (articles (process_card sample_lib initial_state card_foo_again))
       = [\<lparr>year = 2024, month = 3, day = 2, hour = 0, minute = 0, second = 0,
           tzinfo = Some UTC\<rparr>]
   \<and> strptime sample_lib ''March 2024'' ''%Y-%m-%dT%H:%M''
       = Inl (ValueError ''time data does not match format'')
   \<and> strptime sample_lib ''March 2024'' ''%Y-%m-%d''
       = Inl (ValueError ''time data does not match format'')
   \<and> map (\<lambda>r. Inr (date r)) (articles (process_card sample_lib initial_state card_bad_date))
       = [stable_fallback_date (hash sample_lib) ''https://openai.com/index/quux'']
   \<and> select_one sample_lib card_bar ''time[datetime]'' = Inr None
   \<and> articles (process_card sample_lib initial_state card_bar) = [article_bar]
   \<and> stable_fallback_date (hash sample_lib) (link article_bar) = Inr (date article_bar)"
proof -
  have a: "date article_foo
       = \<lparr>year = 2024, month = 3, day = 1, hour = 12, minute = 0, second = 0,
          tzinfo = None\<rparr>\<lparr>tzinfo := Some UTC\<rparr>"
    using date_of_record[where L = sample_lib and c = card_foo and st = initial_state
        and r = article_foo, OF process_foo_initial] foo_time foo_datetime_str foo_strptime
    by blast
  have b: "date \<lparr>title = ''Foo, once more'', link = ''https://openai.com/index/foo'',
         date = \<lparr>year = 2024, month = 3, day = 2, hour = 0, minute = 0, second = 0,
                  tzinfo = Some UTC\<rparr>,
         category = ''Company'', description = ''Foo, once more''\<rparr>
       = \<lparr>year = 2024, month = 3, day = 2, hour = 0, minute = 0, second = 0,
          tzinfo = None\<rparr>\<lparr>tzinfo := Some UTC\<rparr>"
    using date_of_record[where L = sample_lib and c = card_foo_again and st = initial_state,
        OF process_foo_again_initial] foo_again_time foo_again_datetime_str
      foo_again_strptime_minute foo_again_strptime_day
    by blast
  have p: "articles (process_card sample_lib initial_state card_bad_date)
       = articles initial_state @
          [\<lparr>title = ''Quux'', link = ''https://openai.com/index/quux'',
            date = \<lparr>year = 2023, month = 1, day = 30, hour = 0, minute = 0, second = 0,
                     tzinfo = Some UTC\<rparr>,
            category = ''Engineering'', description = ''Quux''\<rparr>]"
    unfolding process_bad_date by (simp add: initial_state_def)
  have c: "stable_fallback_date (hash sample_lib) ''https://openai.com/index/quux''
       = Inr \<lparr>year = 2023, month = 1, day = 30, hour = 0, minute = 0, second = 0,
               tzinfo = Some UTC\<rparr>"
    using date_of_record[where L = sample_lib and c = card_bad_date and st = initial_state,
        OF p] bad_date_time bad_date_datetime_str bad_date_strptime_minute
      bad_date_strptime_day
    by fastforce
  have d: "stable_fallback_date (hash sample_lib) (link article_bar) = Inr (date article_bar)"
    using date_of_record[where L = sample_lib and c = card_bar and st = initial_state
        and r = article_bar, OF process_bar_initial] bar_time
    by blast
  from a b c d show ?thesis
    using process_foo_initial process_foo_again_initial process_bar_initial p
    by (simp add: foo_strptime foo_again_strptime_minute foo_again_strptime_day
        bad_date_strptime_minute bad_date_strptime_day bar_time initial_state_def)
qed

section \<open>A blank title before a good one\<close>

lemma select_cards_3:
  "select sample_lib (Tag ''[document]'' [] [card_foo, card_blank_title, card_baz])
     ''div.group.relative'' = Inr ([card_foo] @ card_blank_title # [card_baz])"
  by code_simp

theorem untitled_first_card_blocks_link_witness:
  "find_link sample_lib card_foo \<noteq> Inr (Some ''https://openai.com/index/baz'')
   \<and> find_link sample_lib card_blank_title = Inr (Some ''https://openai.com/index/baz'')
   \<and> get_text sample_lib (Tag ''div'' [(''class'', ''text-h5'')] [Text ''   '']) = Inr []
   \<and> find_link sample_lib card_baz = Inr (Some ''https://openai.com/index/baz'')
   \<and> extract_title sample_lib card_baz = Inr (Some ''Baz'')
   \<and> (\<exists>out. parse_openai_eng_html sample_lib [card_foo, card_blank_title, card_baz] = Inr out
          \<and> ''https://openai.com/index/baz'' \<notin> link ` set out)"
proof -
  have "\<forall>x \<in> set [card_foo]. find_link sample_lib x \<noteq> Inr (Some ''https://openai.com/index/baz'')"
    by (simp add: foo_link)
  moreover have "select_one sample_lib card_blank_title ''div.text-h5'' = Inr None
         \<or> (\<exists>title_elem. select_one sample_lib card_blank_title ''div.text-h5''
                  = Inr (Some title_elem)
                \<and> get_text sample_lib title_elem = Inr [])"
    by (simp add: blank_title_elem blank_title_text)
  ultimately have "\<exists>out. parse_openai_eng_html sample_lib
                          [card_foo, card_blank_title, card_baz] = Inr out
          \<and> ''https://openai.com/index/baz'' \<notin> link ` set out"
    using untitled_first_card_blocks_link[OF BeautifulSoup_sample_lib select_cards_3 _
        blank_title_link]
    by blast
  then show ?thesis
    by (simp add: foo_link blank_title_link blank_title_text baz_link baz_title)
qed

section \<open>A card that raises\<close>

lemma hash_raising_lib: "hash raising_lib = sample_hash"
  by (simp add: raising_lib_def sample_lib_def soup_lib_def)

lemma BeautifulSoup_raising_lib:
  "BeautifulSoup raising_lib doc = Inr (Tag ''[document]'' [] doc)"
  by (simp add: raising_lib_def sample_lib_def soup_lib_def)

lemma select_cards_raising:
  "select raising_lib (Tag ''[document]'' [] [card_foo, card_raising, card_bar])
     ''div.group.relative'' = Inr ([card_foo] @ card_raising # [card_bar])"
  by code_simp

lemma raising_foo_link:
  "find_link raising_lib card_foo = Inr (Some ''https://openai.com/index/foo'')"
  by code_simp

lemma raising_foo_title: "extract_title raising_lib card_foo = Inr (Some ''Foo Launch'')"
  by code_simp

lemma raising_foo_date:
  "extract_date raising_lib card_foo t l
     = ([], Inr \<lparr>year = 2024, month = 3, day = 1, hour = 12, minute = 0, second = 0,
                 tzinfo = Some UTC\<rparr>)"
  by code_simp

lemma raising_foo_category: "extract_category raising_lib card_foo = Inr ''Research''"
  by code_simp

lemma raising_link:
  "find_link raising_lib card_raising = Inr (Some ''https://openai.com/index/raising'')"
  by code_simp

lemma raising_title:
  "extract_title raising_lib card_raising = Inl (OtherException ''cannot read text'')"
  by code_simp

lemma raising_bar_link:
  "find_link raising_lib card_bar = Inr (Some ''https://openai.com/index/bar'')"
  by code_simp

lemma raising_bar_title: "extract_title raising_lib card_bar = Inr (Some ''Bar Update'')"
  by code_simp

lemma raising_bar_time: "select_one raising_lib card_bar ''time[datetime]'' = Inr None"
  by code_simp

lemma raising_bar_date:
  "extract_date raising_lib card_bar t ''https://openai.com/index/bar''
     = ([], Inr \<lparr>year = 2023, month = 1, day = 29, hour = 0, minute = 0, second = 0,
                 tzinfo = Some UTC\<rparr>)"
  by (simp add: extract_date_def raising_bar_time hash_raising_lib sample_fallback_28)

lemma raising_bar_category: "extract_category raising_lib card_bar = Inr ''Engineering''"
  by code_simp

lemma raising_run_foo:
  "for_cards raising_lib initial_state [card_foo]
     = \<lparr>articles = [article_foo], seen_links = {''https://openai.com/index/foo''},
        logged = []\<rparr>"
  by (simp add: process_card_def try_card_def raising_foo_link raising_foo_title
      raising_foo_date raising_foo_category article_foo_def initial_state_def)

lemma raising_try:
  "try_card raising_lib
     \<lparr>articles = [article_foo], seen_links = {''https://openai.com/index/foo''},
      logged = []\<rparr> card_raising
     = (\<lparr>articles = [article_foo],
         seen_links = {''https://openai.com/index/raising'', ''https://openai.com/index/foo''},
         logged = []\<rparr>,
        Some (OtherException ''cannot read text''))"
  by (simp add: try_card_def raising_link raising_title)

lemma raising_run_bar:
  "for_cards raising_lib
     (skip_article
        \<lparr>articles = [article_foo],
         seen_links = {''https://openai.com/index/raising'', ''https://openai.com/index/foo''},
         logged = []\<rparr>
        (OtherException ''cannot read text'')) [card_bar]
     = \<lparr>articles = [article_foo, article_bar],
        seen_links = {''https://openai.com/index/bar'', ''https://openai.com/index/raising'',
                      ''https://openai.com/index/foo''},
        logged = [Warning_skipping_article (OtherException ''cannot read text'')]\<rparr>"
  by (simp add: process_card_def try_card_def skip_article_def raising_bar_link
      raising_bar_title raising_bar_date raising_bar_category article_bar_def)


text \<open>The warning for the skipped card is in the log of that run.\<close>

lemma exception_is_logged:
  "run_extraction raising_lib [card_foo, card_raising, card_bar]
     = Inr \<lparr>articles = [article_foo, article_bar],
            seen_links = {''https://openai.com/index/bar'', ''https://openai.com/index/raising'',
                          ''https://openai.com/index/foo''},
            logged = [Warning_skipping_article (OtherException ''cannot read text''),
                      Info_parsed 2]\<rparr>"
proof -
  have "for_cards raising_lib initial_state ([card_foo] @ card_raising # [card_bar])
      = for_cards raising_lib
          (process_card raising_lib (for_cards raising_lib initial_state [card_foo])
             card_raising) [card_bar]"
    by (simp only: for_cards_append for_cards.simps)
  also have "\<dots> = \<lparr>articles = [article_foo, article_bar],
        seen_links = {''https://openai.com/index/bar'', ''https://openai.com/index/raising'',
                      ''https://openai.com/index/foo''},
        logged = [Warning_skipping_article (OtherException ''cannot read text'')]\<rparr>"
    unfolding raising_run_foo process_card_def raising_try
    by (simp only: prod.case option.case raising_run_bar)
  finally show ?thesis
    by (simp add: run_extraction_def BeautifulSoup_raising_lib select_cards_raising
        del: for_cards.simps append.simps)
qed

section \<open>What every record satisfies\<close>

lemma build_url_shape:
  assumes "build_url href = Some l"
  shows "l \<noteq> [] \<and> prefix ''http'' l"
proof (cases "prefix ''/'' href")
  case True
  with assms show ?thesis by (auto simp: build_url_def)
next
  case False
  with assms show ?thesis by (auto simp: build_url_def split: if_splits)
qed

lemma find_link_shape:
  assumes "find_link L c = Inr (Some l)"
  shows "l \<noteq> [] \<and> prefix ''http'' l"
proof -
  from assms obtain href where "build_url href = Some l"
    by (auto simp: find_link_def split: sum.splits option.splits if_splits)
  then show ?thesis by (rule build_url_shape)
qed

lemma extract_title_nonempty: "extract_title L c = Inr (Some t) \<Longrightarrow> t \<noteq> []"
  by (auto simp: extract_title_def split: sum.splits option.splits if_splits)

lemma stable_fallback_date_utc:
  assumes "stable_fallback_date h l = Inr d"
  shows "tzinfo d = Some UTC"
proof -
  obtain d' where "stable_fallback_date h l = Inr d'" "tzinfo d' = Some UTC"
    by (rule stable_fallback_date_returns)
  with assms show ?thesis by simp
qed

lemma parse_datetime_str_utc:
  assumes "parse_datetime_str L s t l = (w, Inr d)"
  shows "tzinfo d = Some UTC"
  using assms
  by (auto simp: parse_datetime_str_def replace_tzinfo_def stable_fallback_date_utc
      split: sum.splits exn.splits)

lemma extract_date_utc:
  assumes "extract_date L c t l = (w, Inr d)"
  shows "tzinfo d = Some UTC"
  using assms
  by (auto simp: extract_date_def parse_datetime_str_utc stable_fallback_date_utc
      split: sum.splits option.splits)

lemma record_ok_process_card:
  assumes "\<forall>r \<in> set (articles st). record_ok r"
  shows "\<forall>r \<in> set (articles (process_card L st c)). record_ok r"
proof (cases rule: process_card_cases[where L=L and st=st and c=c])
  case skipped
  with assms show ?thesis by simp
next
  case (added l t w d cat)
  have "record_ok \<lparr>title = t, link = l, date = d, category = cat, description = t\<rparr>"
    using find_link_shape[OF added(1)] extract_title_nonempty[OF added(3)]
      extract_date_utc[OF added(4)]
    by (simp add: record_ok_def)
  with assms added(6) show ?thesis by simp
qed

lemma record_ok_for_cards:
  "\<forall>r \<in> set (articles st). record_ok r
   \<Longrightarrow> \<forall>r \<in> set (articles (for_cards L st cs)). record_ok r"
proof (induction cs arbitrary: st)
  case Nil
  then show ?case by simp
next
  case (Cons c cs)
  from Cons.prems have "\<forall>r \<in> set (articles (process_card L st c)). record_ok r"
    by (rule record_ok_process_card)
  then show ?case using Cons.IH by simp
qed

text \<open>
  Every record returned has a date in UTC, a non-empty title, a non-empty link that
  begins with \<^verbatim>\<open>http\<close>, and its title as description.
\<close>

lemma record_invariant:
  assumes "parse_openai_eng_html L html = Inr out" and "r \<in> set out"
  shows "tzinfo (date r) = Some UTC \<and> title r \<noteq> [] \<and> link r \<noteq> []
         \<and> prefix ''http'' (link r) \<and> description r = title r"
proof -
  from assms(1) obtain cards where "out = articles (for_cards L initial_state cards)"
    by (auto simp: parse_openai_eng_html_def run_extraction_def Let_def
        split: sum.splits)
  moreover have "\<forall>r \<in> set (articles (for_cards L initial_state cards)). record_ok r"
    by (rule record_ok_for_cards) (simp add: initial_state_def)
  ultimately show ?thesis using assms(2) by (simp add: record_ok_def)
qed

section \<open>A relative link that begins with http\<close>

lemma http_relative_link:
  "find_link sample_lib card_http_relative = Inr (Some ''httpx/index/a'')"
  by code_simp

lemma http_relative_title:
  "extract_title sample_lib card_http_relative = Inr (Some ''Relative'')"
  by code_simp

lemma http_relative_date:
  "extract_date sample_lib card_http_relative t l
     = ([], Inr \<lparr>year = 2024, month = 5, day = 6, hour = 0, minute = 0, second = 0,
                 tzinfo = Some UTC\<rparr>)"
  by code_simp

lemma http_relative_category:
  "extract_category sample_lib card_http_relative = Inr ''Engineering''"
  by code_simp

lemma select_cards_http_relative:
  "select sample_lib (Tag ''[document]'' [] [card_http_relative]) ''div.group.relative''
     = Inr [card_http_relative]"
  by code_simp

lemma run_http_relative:
  "for_cards sample_lib initial_state [card_http_relative]
     = \<lparr>articles =
          [\<lparr>title = ''Relative'', link = ''httpx/index/a'',
            date = \<lparr>year = 2024, month = 5, day = 6, hour = 0, minute = 0, second = 0,
                     tzinfo = Some UTC\<rparr>,
            category = ''Engineering'', description = ''Relative''\<rparr>],
        seen_links = {''httpx/index/a''}, logged = []\<rparr>"
  by (simp add: process_card_def try_card_def http_relative_link http_relative_title
      http_relative_date http_relative_category initial_state_def)

text \<open>
  C4. The claim holds of the date, the title, the description and the non-emptiness of
  the link (\<open>record_invariant\<close>), but not of the link being an absolute URL: the source
  takes every target that begins with \<^verbatim>\<open>http\<close> as absolute. For the card whose anchor
  has the relative target \<^verbatim>\<open>httpx/index/a\<close> the function returns a record with exactly
  that link, which has no scheme.
\<close>

theorem relative_http_link_emitted:
  "parse_openai_eng_html sample_lib [card_http_relative]
     = Inr [\<lparr>title = ''Relative'', link = ''httpx/index/a'',
             date = \<lparr>year = 2024, month = 5, day = 6, hour = 0, minute = 0, second = 0,
                      tzinfo = Some UTC\<rparr>,
             category = ''Engineering'', description = ''Relative''\<rparr>]
   \<and> \<not> prefix ''http://'' ''httpx/index/a'' \<and> \<not> prefix ''https://'' ''httpx/index/a''"
proof -
  have "parse_openai_eng_html sample_lib [card_http_relative]
     = Inr [\<lparr>title = ''Relative'', link = ''httpx/index/a'',
             date = \<lparr>year = 2024, month = 5, day = 6, hour = 0, minute = 0, second = 0,
                      tzinfo = Some UTC\<rparr>,
             category = ''Engineering'', description = ''Relative''\<rparr>]"
    using parse_openai_eng_html_eq[OF BeautifulSoup_sample_lib select_cards_http_relative]
    unfolding run_http_relative by simp
  then show ?thesis by simp
qed

end
